theory Spec2Isabelle
  imports Complex_Main "HOL-Library.Sublist" "HOL-Library.Monad_Syntax"
begin

section \<open>JavaScript strings and numbers, as the plugin uses them\<close>

text \<open>
  The plugin (\<^verbatim>\<open>code.ts\<close>) reads CSS values as JavaScript strings. A string is
  modelled as a \<^typ>\<open>string\<close> of ASCII characters: the white space of \<^verbatim>\<open>trim\<close> and of
  the regular expression class \<^verbatim>\<open>\s\<close> is tab, line feed, vertical tab, form feed,
  carriage return and space, and case conversion acts on the letters A to Z. A JavaScript
  number is modelled as an exact rational (\<^typ>\<open>rat\<close>), so the rounding of IEEE doubles is
  left out; \<^verbatim>\<open>NaN\<close> is a value of its own where the code can produce it. An absent value
  (\<^verbatim>\<open>undefined\<close>, \<^verbatim>\<open>null\<close>) is \<^const>\<open>None\<close>.
\<close>

definition isWs :: "char \<Rightarrow> bool" where
  "isWs c = (c \<in> set [CHR 0x09, CHR 0x0A, CHR 0x0B, CHR 0x0C, CHR 0x0D, CHR '' ''])"

definition isDigit :: "char \<Rightarrow> bool" where
  "isDigit c = (c \<in> set ''0123456789'')"

definition digitVal :: "char \<Rightarrow> nat" where
  "digitVal c = of_char c - 48"

text \<open>\<^verbatim>\<open>String.prototype.trim\<close>.\<close>

definition trim :: "string \<Rightarrow> string" where
  "trim s = rev (dropWhile isWs (rev (dropWhile isWs s)))"

definition lowerChar :: "char \<Rightarrow> char" where
  "lowerChar c =
     (case map_of (zip ''ABCDEFGHIJKLMNOPQRSTUVWXYZ'' ''abcdefghijklmnopqrstuvwxyz'') c of
        Some d \<Rightarrow> d | None \<Rightarrow> c)"

definition upperChar :: "char \<Rightarrow> char" where
  "upperChar c =
     (case map_of (zip ''abcdefghijklmnopqrstuvwxyz'' ''ABCDEFGHIJKLMNOPQRSTUVWXYZ'') c of
        Some d \<Rightarrow> d | None \<Rightarrow> c)"

definition toLowerCase :: "string \<Rightarrow> string" where
  "toLowerCase s = map lowerChar s"

definition toUpperCase :: "string \<Rightarrow> string" where
  "toUpperCase s = map upperChar s"

text \<open>\<^verbatim>\<open>s.includes(sub)\<close>.\<close>

fun includesStr :: "string \<Rightarrow> string \<Rightarrow> bool" where
  "includesStr [] sub = (sub = [])"
| "includesStr (c # cs) sub = (prefix sub (c # cs) \<or> includesStr cs sub)"

text \<open>
  \<^verbatim>\<open>s.split(/\s+/)\<close>: the pieces between maximal runs of white space, the empty pieces
  at either end included. The flag says that the previous character was white space.
\<close>

fun splitWsFrom :: "string \<Rightarrow> bool \<Rightarrow> string \<Rightarrow> string list" where
  "splitWsFrom cur inWs [] = [rev cur]"
| "splitWsFrom cur inWs (c # cs) =
     (if isWs c then (if inWs then splitWsFrom [] True cs else rev cur # splitWsFrom [] True cs)
      else splitWsFrom (c # cur) False cs)"

definition splitWs :: "string \<Rightarrow> string list" where
  "splitWs s = splitWsFrom [] False s"

text \<open>The value of a run of decimal digits, and \<^verbatim>\<open>Number\<close> on the text that the
  length pattern captures: an optional minus sign, digits, and an optional fraction.\<close>

definition digitsVal :: "string \<Rightarrow> nat" where
  "digitsVal ds = foldl (\<lambda>a c. 10 * a + digitVal c) 0 ds"

definition decimalVal :: "string \<Rightarrow> rat" where
  "decimalVal s =
     (let ip = takeWhile isDigit s; r = dropWhile isDigit s
      in if prefix ''.'' r
         then of_nat (digitsVal ip) + of_nat (digitsVal (tl r)) / 10 ^ length (tl r)
         else of_nat (digitsVal ip))"

definition numberOf :: "string \<Rightarrow> rat" where
  "numberOf s = (if prefix ''-'' s then - decimalVal (tl s) else decimalVal s)"

subsection \<open>Style maps\<close>

text \<open>
  \<^verbatim>\<open>style: Record<string, string>\<close> is the computed style of an element: an association
  list read with \<^const>\<open>map_of\<close>. \<open>truthy\<close> is JavaScript's test of a string that may be
  absent: present and not empty.
\<close>

type_synonym style = "(string \<times> string) list"

definition sget :: "style \<Rightarrow> string \<Rightarrow> string option" where
  "sget st k = map_of st k"

definition truthy :: "string option \<Rightarrow> bool" where
  "truthy v = (case v of None \<Rightarrow> False | Some s \<Rightarrow> s \<noteq> [])"

section \<open>Value parsers\<close>

subsection \<open>Lengths: \<^verbatim>\<open>parsePx\<close>\<close>

text \<open>
  \<^verbatim>\<open>
  function parsePx(v?: string) {
    if (!v) return undefined;
    const re = /(-?\d+(?:\.\d+)?)px/;
    const m = re.exec(v.trim());
    return m ? Number(m[1]) : undefined;
  }
  \<close>
  \<open>pxAt\<close> matches the pattern at the start of a string and returns the captured group.
  The greedy choices never need to be undone: after the digits only \<^verbatim>\<open>.\<close> or \<^verbatim>\<open>p\<close>
  can follow, and neither is a digit. The pattern has no anchors, so \<open>pxExec\<close> tries
  every start position from the left, as \<^verbatim>\<open>exec\<close> does.
\<close>

definition pxAt :: "string \<Rightarrow> string option" where
  "pxAt s =
     (let sg = (if prefix ''-'' s then ''-'' else []);
          r0 = drop (length sg) s;
          ds = takeWhile isDigit r0;
          r1 = dropWhile isDigit r0
      in if ds = [] then None
         else if prefix ''.'' r1
         then (let fs = takeWhile isDigit (tl r1); r3 = dropWhile isDigit (tl r1)
               in if fs \<noteq> [] \<and> prefix ''px'' r3 then Some (sg @ ds @ ''.'' @ fs) else None)
         else if prefix ''px'' r1 then Some (sg @ ds) else None)"

fun pxExec :: "string \<Rightarrow> string option" where
  "pxExec [] = None"
| "pxExec (c # cs) = (case pxAt (c # cs) of Some m \<Rightarrow> Some m | None \<Rightarrow> pxExec cs)"

definition parsePx :: "string option \<Rightarrow> rat option" where
  "parsePx v =
     (case v of
        None \<Rightarrow> None
      | Some s \<Rightarrow> if s = [] then None else map_option numberOf (pxExec (trim s)))"

text \<open>
  The shape of the text that the pattern captures (an optional minus sign, one or more
  digits, and an optional fraction of a point and one or more digits), and the strings
  that are such a number followed by \<^verbatim>\<open>px\<close> and nothing else.
\<close>

definition isPxNumber :: "string \<Rightarrow> bool" where
  "isPxNumber s =
     (let r0 = (if prefix ''-'' s then tl s else s);
          ds = takeWhile isDigit r0;
          r1 = dropWhile isDigit r0
      in ds \<noteq> [] \<and>
         (r1 = [] \<or> (prefix ''.'' r1 \<and> tl r1 \<noteq> [] \<and> list_all isDigit (tl r1))))"

definition isPxLiteral :: "string \<Rightarrow> bool" where
  "isPxLiteral s =
     (2 \<le> length s \<and> drop (length s - 2) s = ''px'' \<and> isPxNumber (take (length s - 2) s))"

subsection \<open>Colours: \<^verbatim>\<open>parseColor\<close> and \<^verbatim>\<open>hexOf\<close>\<close>

text \<open>
  A colour channel is a JavaScript number that can be \<^verbatim>\<open>NaN\<close>: \<^verbatim>\<open>parseInt\<close> gives
  \<^verbatim>\<open>NaN\<close> on text that does not start with a digit of the radix.
\<close>

datatype jsnum = Num rat | NaN

datatype RGB = RGB jsnum jsnum jsnum

definition isHexDigit :: "char \<Rightarrow> bool" where
  "isHexDigit c = (c \<in> set ''0123456789abcdefABCDEF'')"

definition hexVal :: "char \<Rightarrow> nat" where
  "hexVal c =
     (case map_of (zip ''0123456789abcdef'' [0..<16]) (lowerChar c) of
        Some n \<Rightarrow> n | None \<Rightarrow> 0)"

text \<open>
  \<^verbatim>\<open>Number.parseInt(str, 16)\<close>: leading white space is skipped, then a sign, then an
  optional \<^verbatim>\<open>0x\<close> or \<^verbatim>\<open>0X\<close>; the value is that of the longest run of hexadecimal
  digits that follows, and \<^verbatim>\<open>NaN\<close> when that run is empty.
\<close>

definition parseInt16 :: "string \<Rightarrow> jsnum" where
  "parseInt16 str =
     (let s0 = dropWhile isWs str;
          s1 = (if prefix ''-'' s0 \<or> prefix ''+'' s0 then tl s0 else s0);
          s2 = (if prefix ''0x'' s1 \<or> prefix ''0X'' s1 then drop 2 s1 else s1);
          z = takeWhile isHexDigit s2;
          mathInt = foldl (\<lambda>a c. 16 * a + hexVal c) 0 z
      in if z = [] then NaN
         else if prefix ''-'' s0 then Num (- of_nat mathInt) else Num (of_nat mathInt))"

definition divNum :: "jsnum \<Rightarrow> rat \<Rightarrow> jsnum" where
  "divNum x d = (case x of NaN \<Rightarrow> NaN | Num q \<Rightarrow> Num (q / d))"

text \<open>
  Pieces of a pattern, each consuming a prefix of the text that is left: a literal, a run
  of white space (\<^verbatim>\<open>\s*\<close>), one or more digits (\<^verbatim>\<open>\d+\<close>), one or more digits or
  points (\<^verbatim>\<open>[\d.]+\<close>).
\<close>

definition lit :: "string \<Rightarrow> string \<Rightarrow> string option" where
  "lit l s = (if prefix l s then Some (drop (length l) s) else None)"

definition skipWs :: "string \<Rightarrow> string" where
  "skipWs s = dropWhile isWs s"

definition digits1 :: "string \<Rightarrow> (string \<times> string) option" where
  "digits1 s =
     (if takeWhile isDigit s = [] then None
      else Some (takeWhile isDigit s, dropWhile isDigit s))"

definition isDigitOrDot :: "char \<Rightarrow> bool" where
  "isDigitOrDot c = (isDigit c \<or> c = CHR ''.'')"

definition numdots1 :: "string \<Rightarrow> (string \<times> string) option" where
  "numdots1 s =
     (if takeWhile isDigitOrDot s = [] then None
      else Some (takeWhile isDigitOrDot s, dropWhile isDigitOrDot s))"

text \<open>
  The pattern of \<^verbatim>\<open>parseColor\<close> for the functional notation,
  \<^verbatim>\<open>/rgba?\s*\(\s*(\d+)\s*,\s*(\d+)\s*,\s*(\d+)(?:\s*,\s*([\d.]+))?\s*\)/\<close>,
  matched at the start of a string; the result is the three captured channels. Every
  greedy run is followed by a character outside its class, so the only choice to try
  both ways is the optional fourth argument.
\<close>

definition rgbIntsAt :: "string \<Rightarrow> (string \<times> string \<times> string) option" where
  "rgbIntsAt s =
     do {
       s1 \<leftarrow> lit ''rgb'' s;
       s2 \<leftarrow> lit ''('' (skipWs (if prefix ''a'' s1 then tl s1 else s1));
       (c1, s3) \<leftarrow> digits1 (skipWs s2);
       s4 \<leftarrow> lit '','' (skipWs s3);
       (c2, s5) \<leftarrow> digits1 (skipWs s4);
       s6 \<leftarrow> lit '','' (skipWs s5);
       (c3, s7) \<leftarrow> digits1 (skipWs s6);
       (let withAlpha = do {
              t \<leftarrow> lit '','' (skipWs s7);
              (_, u) \<leftarrow> numdots1 (skipWs t);
              lit '')'' (skipWs u)
            }
        in if withAlpha \<noteq> None \<or> lit '')'' (skipWs s7) \<noteq> None
           then Some (c1, c2, c3) else None)
     }"

fun rgbIntsExec :: "string \<Rightarrow> (string \<times> string \<times> string) option" where
  "rgbIntsExec [] = None"
| "rgbIntsExec (c # cs) =
     (case rgbIntsAt (c # cs) of Some m \<Rightarrow> Some m | None \<Rightarrow> rgbIntsExec cs)"

text \<open>
  \<^verbatim>\<open>
  function parseColor(v?: string | null) {
    if (!v) return null;
    const s = v.trim().toLowerCase();
    if (s.startsWith('#')) {
      const hex = s.slice(1);
      const norm = hex.length === 3 ? hex.split('').map((c) => c + c).join('') : hex;
      const r = Number.parseInt(norm.slice(0, 2), 16) / 255;
      const g = Number.parseInt(norm.slice(2, 4), 16) / 255;
      const b = Number.parseInt(norm.slice(4, 6), 16) / 255;
      return { r, g, b };
    }
    const re = /rgba?\s*\(\s*(\d+)\s*,\s*(\d+)\s*,\s*(\d+)(?:\s*,\s*([\d.]+))?\s*\)/;
    const m = re.exec(s);
    if (m) {
      return { r: Number(m[1]) / 255, g: Number(m[2]) / 255, b: Number(m[3]) / 255 };
    }
    return null;
  }
  \<close>
\<close>

definition parseColor :: "string option \<Rightarrow> RGB option" where
  "parseColor v =
     (case v of
        None \<Rightarrow> None
      | Some v' \<Rightarrow>
          if v' = [] then None
          else let s = toLowerCase (trim v') in
            if prefix ''#'' s then
              (let hex = tl s;
                   norm = (if length hex = 3 then concat (map (\<lambda>c. [c, c]) hex) else hex)
               in Some (RGB (divNum (parseInt16 (take 2 norm)) 255)
                            (divNum (parseInt16 (take 2 (drop 2 norm))) 255)
                            (divNum (parseInt16 (take 2 (drop 4 norm))) 255)))
            else (case rgbIntsExec s of
                    Some (c1, c2, c3) \<Rightarrow>
                      Some (RGB (Num (of_nat (digitsVal c1) / 255))
                                (Num (of_nat (digitsVal c2) / 255))
                                (Num (of_nat (digitsVal c3) / 255)))
                  | None \<Rightarrow> None))"

text \<open>
  \<^verbatim>\<open>
  function hexOf(color: RGB): string {
    const r = Math.round(color.r * 255).toString(16).padStart(2, '0');
    const g = Math.round(color.g * 255).toString(16).padStart(2, '0');
    const b = Math.round(color.b * 255).toString(16).padStart(2, '0');
    return `#${r}${g}${b}`.toUpperCase();
  }
  \<close>
  \<open>roundTimes255\<close> is \<^verbatim>\<open>Math.round(c * 255)\<close>, the integer nearest to the product with
  halves rounded up; \<open>toString16\<close> is \<^verbatim>\<open>toString(16)\<close> on the integer it returns.
\<close>

definition hexChar :: "nat \<Rightarrow> char" where
  "hexChar n = ''0123456789abcdef'' ! n"

function hexDigits :: "nat \<Rightarrow> string" where
  "hexDigits n = (if n < 16 then [hexChar n] else hexDigits (n div 16) @ [hexChar (n mod 16)])"
  by pat_completeness auto
termination
  by (relation "measure id") auto

declare hexDigits.simps [simp del]

definition roundTimes255 :: "jsnum \<Rightarrow> jsnum" where
  "roundTimes255 x = (case x of NaN \<Rightarrow> NaN | Num q \<Rightarrow> Num (of_int \<lfloor>q * 255 + 1 / 2\<rfloor>))"

definition toString16 :: "jsnum \<Rightarrow> string" where
  "toString16 x =
     (case x of
        NaN \<Rightarrow> ''NaN''
      | Num q \<Rightarrow> (if q < 0 then ''-'' else []) @ hexDigits (nat \<bar>\<lfloor>q\<rfloor>\<bar>))"

definition padStart2 :: "string \<Rightarrow> string" where
  "padStart2 s = replicate (2 - length s) CHR ''0'' @ s"

definition hexOf :: "RGB \<Rightarrow> string" where
  "hexOf color =
     (case color of RGB r g b \<Rightarrow>
        toUpperCase (''#'' @ padStart2 (toString16 (roundTimes255 r))
                          @ padStart2 (toString16 (roundTimes255 g))
                          @ padStart2 (toString16 (roundTimes255 b))))"

subsection \<open>Colours with alpha: \<^verbatim>\<open>parseColorWithAlpha\<close>\<close>

text \<open>
  \<^verbatim>\<open>
  function parseColorWithAlpha(v?: string | null) {
    if (!v) return null;
    const s = v.trim().toLowerCase();
    if (s === 'transparent') return { r: 0, g: 0, b: 0, a: 0 };
    if (s.startsWith('#')) {
      const base = parseColor(s);
      return base ? { r: base.r, g: base.g, b: base.b, a: 1 } : null;
    }
    const modernRe =
      /rgba?\s*\(\s*([\d.]+%?)\s+([\d.]+%?)\s+([\d.]+%?)(?:\s*\/\s*([\d.]+%?))?\s*\)/;
    const modernMatch = modernRe.exec(s);
    if (modernMatch) {
      const parseVal = (val: string) => {
        if (val.endsWith('%')) return parseFloat(val) / 100 * 255;
        return parseFloat(val);
      };
      const parseAlpha = (val?: string) => {
        if (!val) return 1;
        if (val.endsWith('%')) return parseFloat(val) / 100;
        return parseFloat(val);
      };
      return { r: parseVal(modernMatch[1]) / 255, g: parseVal(modernMatch[2]) / 255,
               b: parseVal(modernMatch[3]) / 255, a: parseAlpha(modernMatch[4]) };
    }
    const legacyRe =
      /rgba?\s*\(\s*([\d.]+%?)\s*,\s*([\d.]+%?)\s*,\s*([\d.]+%?)(?:\s*,\s*([\d.]+%?))?\s*\)/;
    const legacyMatch = legacyRe.exec(s);
    if (legacyMatch) { ... the same with legacyMatch ... }
    return null;
  }
  \<close>
  The two patterns differ in the separator only: white space (\<^verbatim>\<open>\s+\<close>) and a slash in
  the modern one, commas in the legacy one. \<open>rgbaAt\<close> takes the separator of the channels
  and the separator of the alpha value as parameters.
\<close>

datatype RGBA = RGBA jsnum jsnum jsnum jsnum

text \<open>\<^verbatim>\<open>parseFloat\<close> on text made of digits and points, with an optional per cent sign
  at its end: the longest prefix that is a decimal literal, \<^verbatim>\<open>NaN\<close> when there is none.\<close>

definition parseFloatDots :: "string \<Rightarrow> jsnum" where
  "parseFloatDots s =
     (let ip = takeWhile isDigit s; r = dropWhile isDigit s
      in if prefix ''.'' r
         then (let fs = takeWhile isDigit (tl r)
               in if ip = [] \<and> fs = [] then NaN
                  else Num (of_nat (digitsVal ip) + of_nat (digitsVal fs) / 10 ^ length fs))
         else if ip = [] then NaN else Num (of_nat (digitsVal ip)))"

definition endsWithPct :: "string \<Rightarrow> bool" where
  "endsWithPct val = (val \<noteq> [] \<and> last val = CHR ''%'')"

definition mulNum :: "jsnum \<Rightarrow> rat \<Rightarrow> jsnum" where
  "mulNum x d = (case x of NaN \<Rightarrow> NaN | Num q \<Rightarrow> Num (q * d))"

definition parseVal :: "string \<Rightarrow> jsnum" where
  "parseVal val =
     (if endsWithPct val then mulNum (divNum (parseFloatDots val) 100) 255
      else parseFloatDots val)"

definition parseAlpha :: "string option \<Rightarrow> jsnum" where
  "parseAlpha val =
     (case val of
        None \<Rightarrow> Num 1
      | Some v \<Rightarrow> if endsWithPct v then divNum (parseFloatDots v) 100 else parseFloatDots v)"

text \<open>\<^verbatim>\<open>([\d.]+%?)\<close>: the captured text and what is left.\<close>

definition numPct :: "string \<Rightarrow> (string \<times> string) option" where
  "numPct s =
     do {
       (n, r) \<leftarrow> numdots1 s;
       (if prefix ''%'' r then Some (n @ ''%'', tl r) else Some (n, r))
     }"

text \<open>The separators: \<^verbatim>\<open>\s+\<close> of the modern pattern, and \<^verbatim>\<open>\s*c\s*\<close> for a
  character \<open>c\<close>.\<close>

definition sepWs1 :: "string \<Rightarrow> string option" where
  "sepWs1 s = (if s \<noteq> [] \<and> isWs (hd s) then Some (skipWs s) else None)"

definition sepChar :: "string \<Rightarrow> string \<Rightarrow> string option" where
  "sepChar c s = map_option skipWs (lit c (skipWs s))"

definition rgbaAt ::
  "(string \<Rightarrow> string option) \<Rightarrow> (string \<Rightarrow> string option) \<Rightarrow> string
     \<Rightarrow> (string \<times> string \<times> string \<times> string option) option" where
  "rgbaAt sep alphaSep s =
     do {
       s1 \<leftarrow> lit ''rgb'' s;
       s2 \<leftarrow> lit ''('' (skipWs (if prefix ''a'' s1 then tl s1 else s1));
       (c1, s3) \<leftarrow> numPct (skipWs s2);
       s4 \<leftarrow> sep s3;
       (c2, s5) \<leftarrow> numPct s4;
       s6 \<leftarrow> sep s5;
       (c3, s7) \<leftarrow> numPct s6;
       (let withAlpha = do {
              t \<leftarrow> alphaSep s7;
              (c4, u) \<leftarrow> numPct t;
              _ \<leftarrow> lit '')'' (skipWs u);
              Some c4
            }
        in case withAlpha of
             Some c4 \<Rightarrow> Some (c1, c2, c3, Some c4)
           | None \<Rightarrow> if lit '')'' (skipWs s7) \<noteq> None then Some (c1, c2, c3, None) else None)
     }"

fun rgbaExec ::
  "(string \<Rightarrow> string option) \<Rightarrow> (string \<Rightarrow> string option) \<Rightarrow> string
     \<Rightarrow> (string \<times> string \<times> string \<times> string option) option" where
  "rgbaExec sep alphaSep [] = None"
| "rgbaExec sep alphaSep (c # cs) =
     (case rgbaAt sep alphaSep (c # cs) of
        Some m \<Rightarrow> Some m
      | None \<Rightarrow> rgbaExec sep alphaSep cs)"

definition rgbaOfMatch :: "string \<times> string \<times> string \<times> string option \<Rightarrow> RGBA" where
  "rgbaOfMatch m =
     (case m of (c1, c2, c3, c4) \<Rightarrow>
        RGBA (divNum (parseVal c1) 255) (divNum (parseVal c2) 255) (divNum (parseVal c3) 255)
             (parseAlpha c4))"

definition parseColorWithAlpha :: "string option \<Rightarrow> RGBA option" where
  "parseColorWithAlpha v =
     (case v of
        None \<Rightarrow> None
      | Some v' \<Rightarrow>
          if v' = [] then None
          else let s = toLowerCase (trim v') in
            if s = ''transparent'' then Some (RGBA (Num 0) (Num 0) (Num 0) (Num 0))
            else if prefix ''#'' s then
              (case parseColor (Some s) of
                 Some (RGB r g b) \<Rightarrow> Some (RGBA r g b (Num 1))
               | None \<Rightarrow> None)
            else case rgbaExec sepWs1 (sepChar ''/'') s of
              Some m \<Rightarrow> Some (rgbaOfMatch m)
            | None \<Rightarrow>
                (case rgbaExec (sepChar '','') (sepChar '','') s of
                   Some m \<Rightarrow> Some (rgbaOfMatch m)
                 | None \<Rightarrow> None))"

subsection \<open>Grid tracks: \<^verbatim>\<open>countGridTracks\<close>\<close>

text \<open>
  \<^verbatim>\<open>
  function countGridTracks(template?: string): number {
    if (!template || template === 'none') return 0;
    let count = 0;
    const repeatRegex = /repeat\(\s*(\d+)\s*,/gi;
    let match: RegExpExecArray | null;
    while ((match = repeatRegex.exec(template))) {
      count += Number(match[1]) || 0;
    }
    const stripped = template.replaceAll(repeatRegex, ' ');
    const tokens = stripped.trim().split(/\s+/).filter(t => {
      if (!t) return false;
      return /^\d/.test(t) || ['auto', 'min-content', 'max-content'].includes(t.toLowerCase())
        || t.startsWith('minmax(');
    });
    count += tokens.length;
    return count;
  }
  \<close>
  \<open>repeatAt\<close> matches \<^verbatim>\<open>repeat\(\s*(\d+)\s*,\<close> at the start of a string, letter case
  ignored, and returns the captured digits and the length of the match. The pattern ends
  at the comma: what follows it, up to the closing parenthesis, is not part of the match.
  \<open>repeatCaptures\<close> is the loop over the global pattern (each search starts where the last
  match ended) and \<open>repeatStrip\<close> is \<^verbatim>\<open>replaceAll\<close> with a space.
\<close>

definition repeatAt :: "string \<Rightarrow> (string \<times> nat) option" where
  "repeatAt s =
     (if toLowerCase (take 7 s) = ''repeat('' then
        do {
          (n, s1) \<leftarrow> digits1 (skipWs (drop 7 s));
          s2 \<leftarrow> lit '','' (skipWs s1);
          Some (n, length s - length s2)
        }
      else None)"

fun repeatCaptures :: "string \<Rightarrow> string list" where
  "repeatCaptures [] = []"
| "repeatCaptures (c # cs) =
     (case repeatAt (c # cs) of
        Some (n, k) \<Rightarrow> n # repeatCaptures (drop (k - 1) cs)
      | None \<Rightarrow> repeatCaptures cs)"

fun repeatStrip :: "string \<Rightarrow> string" where
  "repeatStrip [] = []"
| "repeatStrip (c # cs) =
     (case repeatAt (c # cs) of
        Some (n, k) \<Rightarrow> CHR '' '' # repeatStrip (drop (k - 1) cs)
      | None \<Rightarrow> c # repeatStrip cs)"

definition isTrackToken :: "string \<Rightarrow> bool" where
  "isTrackToken t =
     (if t = [] then False
      else isDigit (hd t) \<or> toLowerCase t \<in> set [''auto'', ''min-content'', ''max-content'']
           \<or> prefix ''minmax('' t)"

definition countGridTracks :: "string option \<Rightarrow> nat" where
  "countGridTracks template =
     (case template of
        None \<Rightarrow> 0
      | Some t \<Rightarrow>
          if t = [] \<or> t = ''none'' then 0
          else sum_list (map digitsVal (repeatCaptures t))
               + length (filter isTrackToken (splitWs (trim (repeatStrip t)))))"

subsection \<open>Box edges: \<^verbatim>\<open>getBox\<close>\<close>

text \<open>
  \<^verbatim>\<open>
  function getBox(style: Record<string, string>, base: 'margin' | 'padding') {
    const one = style[base];
    const top = parsePx(style[`${base}-top`]);
    const right = parsePx(style[`${base}-right`]);
    const bottom = parsePx(style[`${base}-bottom`]);
    const left = parsePx(style[`${base}-left`]);
    let t = top, r = right, b = bottom, l = left;
    if (one) {
      const parts = one.split(/\s+/).filter(Boolean);
      const vals = parts.map(parsePx);
      if (vals.length === 1 && vals[0] !== undefined) t = r = b = l = vals[0];
      else if (vals.length === 2 && vals[0] !== undefined && vals[1] !== undefined) {
        t = b = vals[0]; r = l = vals[1];
      } else if (vals.length === 3 && vals[0] !== undefined && vals[1] !== undefined
                 && vals[2] !== undefined) {
        t = vals[0]; r = l = vals[1]; b = vals[2];
      } else if (vals.length === 4) {
        [t, r, b, l] = vals as number[];
      }
    }
    return { top: t ?? 0, right: r ?? 0, bottom: b ?? 0, left: l ?? 0 };
  }
  \<close>
  The four sides start as the longhand values and are then assigned from the shorthand
  when it is present and expands. A box is written \<open>Box top right bottom left\<close>;
  \<open>boxTokens\<close> is \<^verbatim>\<open>vals\<close>.
\<close>

datatype Box = Box (boxTop: rat) (boxRight: rat) (boxBottom: rat) (boxLeft: rat)

definition orZero :: "rat option \<Rightarrow> rat" where
  "orZero v = (case v of None \<Rightarrow> 0 | Some x \<Rightarrow> x)"

definition boxTokens :: "string \<Rightarrow> rat option list" where
  "boxTokens one = map (\<lambda>p. parsePx (Some p)) (filter (\<lambda>p. p \<noteq> []) (splitWs one))"

definition getBox :: "style \<Rightarrow> string \<Rightarrow> Box" where
  "getBox style base =
     (let one = sget style base;
          top = parsePx (sget style (base @ ''-top''));
          right = parsePx (sget style (base @ ''-right''));
          bottom = parsePx (sget style (base @ ''-bottom''));
          left = parsePx (sget style (base @ ''-left''));
          vals = (if truthy one then boxTokens (the one) else []);
          (t, r, b, l) =
            (if \<not> truthy one then (top, right, bottom, left)
             else if length vals = 1 \<and> vals ! 0 \<noteq> None
               then (vals ! 0, vals ! 0, vals ! 0, vals ! 0)
             else if length vals = 2 \<and> vals ! 0 \<noteq> None \<and> vals ! 1 \<noteq> None
               then (vals ! 0, vals ! 1, vals ! 0, vals ! 1)
             else if length vals = 3 \<and> vals ! 0 \<noteq> None \<and> vals ! 1 \<noteq> None
                     \<and> vals ! 2 \<noteq> None
               then (vals ! 0, vals ! 1, vals ! 2, vals ! 1)
             else if length vals = 4
               then (vals ! 0, vals ! 1, vals ! 2, vals ! 3)
             else (top, right, bottom, left))
      in Box (orZero t) (orZero r) (orZero b) (orZero l))"

section \<open>Font resolver\<close>

text \<open>
  A font name is a pair of a family and a style name. \<^verbatim>\<open>FONT_FALLBACKS\<close> is an object
  literal, and \<^verbatim>\<open>FONT_FALLBACKS[font.family]\<close> reads a property of it by name: the value
  of one of its own entries, or, for a name that every object inherits from
  \<^verbatim>\<open>Object.prototype\<close>, the inherited member (a function, or for \<^verbatim>\<open>__proto__\<close> the
  prototype itself), or \<^verbatim>\<open>undefined\<close>. An inherited member is truthy and is not a
  string, so a candidate made from it is an object whose family is not a family name:
  \<open>Inherited key style\<close>. Whether the host loads a candidate (\<^verbatim>\<open>tryLoadFont\<close>: whether
  \<^verbatim>\<open>figma.loadFontAsync\<close> resolves or throws) is a parameter.
  \<^verbatim>\<open>
  const FONT_FALLBACKS: Record<string, string> = { 'Roboto': 'Inter', ... };

  function buildFontAttempts(font: { family: string; style: string }): FontName[] {
    let attempts: FontName[] = [fontNameOf(font.family, font.style)];
    const fallbackFamily = FONT_FALLBACKS[font.family];
    if (fallbackFamily) {
      attempts = attempts.concat(
        fontNameOf(fallbackFamily, font.style),
        fontNameOf(fallbackFamily, 'Regular')
      );
    }
    return attempts.concat(fontNameOf('Inter', 'Regular'));
  }

  async function loadFontWithFallback(font) {
    for (const attempt of buildFontAttempts(font)) {
      if (await tryLoadFont(attempt)) {
        const substituted = attempt.family !== font.family || attempt.style !== font.style;
        return { fontName: attempt, substituted };
      }
    }
    return null;
  }
  \<close>
\<close>

type_synonym FontName = "string \<times> string"

datatype attempt = Font FontName | Inherited string string

definition FONT_FALLBACKS :: "(string \<times> string) list" where
  "FONT_FALLBACKS =
     [(''Roboto'', ''Inter''), (''Open Sans'', ''Inter''), (''Montserrat'', ''Inter''),
      (''Lato'', ''Inter''), (''Poppins'', ''Inter''), (''Source Sans Pro'', ''Inter''),
      (''Raleway'', ''Inter''), (''Nunito'', ''Inter''), (''Ubuntu'', ''Inter''),
      (''Mukta'', ''Inter''), (''PT Sans'', ''Arial''), (''Merriweather'', ''Georgia''),
      (''Playfair Display'', ''Georgia''), (''Oswald'', ''Arial Black'')]"

text \<open>The names of the members of \<^verbatim>\<open>Object.prototype\<close>, which an object literal inherits.\<close>

definition OBJECT_PROTOTYPE_KEYS :: "string list" where
  "OBJECT_PROTOTYPE_KEYS =
     [''constructor'', ''hasOwnProperty'', ''isPrototypeOf'', ''propertyIsEnumerable'',
      ''toLocaleString'', ''toString'', ''valueOf'', ''__proto__'', ''__defineGetter__'',
      ''__defineSetter__'', ''__lookupGetter__'', ''__lookupSetter__'']"

definition fontNameOf :: "string \<Rightarrow> string \<Rightarrow> FontName" where
  "fontNameOf family style = (family, style)"

definition buildFontAttempts :: "FontName \<Rightarrow> attempt list" where
  "buildFontAttempts font =
     (let attempts = [Font (fontNameOf (fst font) (snd font))];
          attempts' =
            (case map_of FONT_FALLBACKS (fst font) of
               Some fallbackFamily \<Rightarrow>
                 attempts @ [Font (fontNameOf fallbackFamily (snd font)),
                             Font (fontNameOf fallbackFamily ''Regular'')]
             | None \<Rightarrow>
                 if fst font \<in> set OBJECT_PROTOTYPE_KEYS
                 then attempts @ [Inherited (fst font) (snd font),
                                  Inherited (fst font) ''Regular'']
                 else attempts)
      in attempts' @ [Font (fontNameOf ''Inter'' ''Regular'')])"

text \<open>
  \<open>substituted\<close> compares the family and the style of the candidate with the strings of
  the request; a family that is not a string differs from every string.
\<close>

fun substituted :: "attempt \<Rightarrow> FontName \<Rightarrow> bool" where
  "substituted (Font a) font = (fst a \<noteq> fst font \<or> snd a \<noteq> snd font)"
| "substituted (Inherited k st) font = True"

fun tryAttempts ::
  "(attempt \<Rightarrow> bool) \<Rightarrow> FontName \<Rightarrow> attempt list \<Rightarrow> (attempt \<times> bool) option" where
  "tryAttempts tryLoadFont font [] = None"
| "tryAttempts tryLoadFont font (attempt # rest) =
     (if tryLoadFont attempt then Some (attempt, substituted attempt font)
      else tryAttempts tryLoadFont font rest)"

definition loadFontWithFallback ::
  "(attempt \<Rightarrow> bool) \<Rightarrow> FontName \<Rightarrow> (attempt \<times> bool) option" where
  "loadFontWithFallback tryLoadFont font = tryAttempts tryLoadFont font (buildFontAttempts font)"

section \<open>The scene graph and the host\<close>

text \<open>
  The input tree (\<^verbatim>\<open>JsonNode\<close>): a text node, or an element with its tag, attributes,
  computed style and children.
\<close>

datatype JsonNode =
    TextNode string
  | ElementNode string style style "JsonNode list"

text \<open>
  The nodes that the plugin creates on the canvas. A node is a record of the properties
  that the builder assigns and that the properties below speak of; nodes live in a store
  indexed by the order of their creation, and a node refers to its parent and children by
  index. Strokes, effects, corner radii, opacity, the typographic properties of a text
  node, the registry of element ids and the prototype links are assigned by the builder
  too; they are not part of the record, and the code that assigns them reads none of the
  fields below. The layout engine of the host (which may move or resize a node after an
  assignment) is outside the model: a field holds the last value assigned to it.
\<close>

datatype nodeType = FRAME | TEXT | RECTANGLE

datatype layoutMode = NONE | HORIZONTAL | VERTICAL

datatype axisSizing = AxisFIXED | AxisAUTO

datatype layoutSizing = SizeFIXED | SizeHUG | SizeFILL

datatype alignItems = AlignMIN | AlignCENTER | AlignMAX | AlignSPACE_BETWEEN

datatype scaleMode = ScaleFILL | ScaleFIT | ScaleTILE

text \<open>
  A paint: a solid colour with its opacity; a gradient, kept as the text it was parsed
  from (the stops and the transform that the gradient library computes are not
  modelled); an image, kept as the reference it was fetched from and its scale mode.
\<close>

datatype paint =
    SolidPaint jsnum jsnum jsnum jsnum
  | GradientPaint string
  | ImagePaint string scaleMode

record node =
  ntype :: nodeType
  name :: string
  parent :: "nat option"
  children :: "nat list"
  layoutMode :: layoutMode
  primaryAxisSizingMode :: axisSizing
  counterAxisSizingMode :: axisSizing
  layoutSizingHorizontal :: layoutSizing
  layoutSizingVertical :: layoutSizing
  paddingTop :: rat
  paddingRight :: rat
  paddingBottom :: rat
  paddingLeft :: rat
  itemSpacing :: rat
  primaryAxisAlignItems :: alignItems
  counterAxisAlignItems :: alignItems
  fills :: "paint list"
  clipsContent :: bool
  width :: rat
  height :: rat
  characters :: string

text \<open>
  \<^verbatim>\<open>GridMeta\<close>, kept per grid frame in \<^verbatim>\<open>gridMetaMap\<close>. \<^verbatim>\<open>rows\<close> is a JavaScript
  array read and written by index: a map from the row index to the row frame.
\<close>

record GridMeta =
  columns :: nat
  columnGap :: rat
  rowGap :: rat
  childCount :: nat
  rows :: "nat \<rightharpoonup> nat"
  columnWidths :: "rat list"
  totalWidth :: "rat option"

text \<open>
  A deferred image fill, pushed on \<^verbatim>\<open>pending\<close> by \<^verbatim>\<open>scheduleBackgroundFill\<close> and
  \<^verbatim>\<open>scheduleImageFill\<close>: the node, the image reference and the style. The task is an
  asynchronous function that is started when it is pushed and first awaits the fetch of
  the image, so it assigns nothing before the builder next awaits; it assigns the fills
  of its node at some await of the builder after the fetch has come back, at the latest
  at the one on the pending list. \<open>pending\<close> holds the tasks that have not done so yet.
\<close>

datatype task = FillTask nat string style

record scene =
  nodes :: "nat \<Rightarrow> node"
  count :: nat
  page :: "nat list"
  gridMetaMap :: "nat \<rightharpoonup> GridMeta"
  pending :: "task list"

text \<open>
  The host is not part of the repository, so what the builder takes from it is a
  parameter: the node that \<^verbatim>\<open>figma.createFrame\<close>, \<^verbatim>\<open>createText\<close> and
  \<^verbatim>\<open>createRectangle\<close> return (their default properties), whether
  \<^verbatim>\<open>figma.loadFontAsync\<close> resolves for a font, whether the gradient library parses a
  text into a gradient with at least one colour stop, whether an image reference can be
  fetched and made into an image (\<^verbatim>\<open>createImagePaintFromSource\<close> returns a paint),
  whether the fetch of an image reference has come back when the builder awaits (this
  may depend on all that has happened so far, that is on the scene at that await), and
  the frame that \<^verbatim>\<open>figma.createNodeFromSvg\<close> returns for the markup rebuilt from an
  element (\<^const>\<open>None\<close> when it throws).
\<close>

record host =
  newFrame :: node
  newText :: node
  newRectangle :: node
  loadFont :: "FontName \<Rightarrow> bool"
  gradientParses :: "string \<Rightarrow> bool"
  imagePaintOk :: "string \<Rightarrow> bool"
  fetched :: "scene \<Rightarrow> string \<Rightarrow> bool"
  svgFrame :: "JsonNode \<Rightarrow> node option"

datatype error = FontLoadError FontName

definition updNode :: "nat \<Rightarrow> (node \<Rightarrow> node) \<Rightarrow> scene \<Rightarrow> scene" where
  "updNode i f s = s\<lparr>nodes := (nodes s)(i := f (nodes s i))\<rparr>"

text \<open>
  Creating a node: the host's node of that type, detached, with the next index. The new
  node is a new object, so \<^verbatim>\<open>gridMetaMap\<close> (a \<^verbatim>\<open>WeakMap\<close> keyed by the frame objects)
  has no entry for it.
\<close>

definition createNode :: "nodeType \<Rightarrow> node \<Rightarrow> scene \<Rightarrow> nat \<times> scene" where
  "createNode ty dflt s =
     (count s,
      s\<lparr>nodes := (nodes s)(count s := dflt\<lparr>ntype := ty, parent := None, children := []\<rparr>),
        count := Suc (count s),
        gridMetaMap := (gridMetaMap s)(count s := None)\<rparr>)"

definition createFrame :: "host \<Rightarrow> scene \<Rightarrow> nat \<times> scene" where
  "createFrame h s = createNode FRAME (newFrame h) s"

definition createText :: "host \<Rightarrow> scene \<Rightarrow> nat \<times> scene" where
  "createText h s = createNode TEXT (newText h) s"

definition createRectangle :: "host \<Rightarrow> scene \<Rightarrow> nat \<times> scene" where
  "createRectangle h s = createNode RECTANGLE (newRectangle h) s"

text \<open>\<^verbatim>\<open>parent.appendChild(child)\<close>: the child leaves its old parent, if it has one, and
  becomes the last child of the new one.\<close>

definition appendChild :: "nat \<Rightarrow> nat \<Rightarrow> scene \<Rightarrow> scene" where
  "appendChild p c s =
     (let s1 = (case parent (nodes s c) of
                  Some q \<Rightarrow> updNode q (\<lambda>n. n\<lparr>children := removeAll c (children n)\<rparr>) s
                | None \<Rightarrow> s);
          s2 = updNode c (\<lambda>n. n\<lparr>parent := Some p\<rparr>) s1
      in updNode p (\<lambda>n. n\<lparr>children := children n @ [c]\<rparr>) s2)"

definition resize :: "nat \<Rightarrow> rat \<Rightarrow> rat \<Rightarrow> scene \<Rightarrow> scene" where
  "resize i w h' s = updNode i (\<lambda>n. n\<lparr>width := w, height := h'\<rparr>) s"

section \<open>Layout resolver\<close>

subsection \<open>Grid containers\<close>

text \<open>
  \<^verbatim>\<open>
  function parseGridColumnWidths(template?: string): number[] {
    if (!template || template === 'none') return [];
    const widths: number[] = [];
    const tokens = template.trim().split(/\s+/);
    for (const token of tokens) {
      const px = parsePx(token);
      if (px !== undefined) { widths.push(px); }
    }
    return widths;
  }
  \<close>
\<close>

definition parseGridColumnWidths :: "string option \<Rightarrow> rat list" where
  "parseGridColumnWidths template =
     (case template of
        None \<Rightarrow> []
      | Some t \<Rightarrow>
          if t = [] \<or> t = ''none'' then []
          else List.map_filter (\<lambda>token. parsePx (Some token)) (splitWs (trim t)))"

text \<open>\<^verbatim>\<open>a ?? b ?? 0\<close> on lengths, and the truth value of an optional number (defined
  and not zero).\<close>

definition orElse :: "rat option \<Rightarrow> rat option \<Rightarrow> rat option" where
  "orElse x y = (case x of Some v \<Rightarrow> Some v | None \<Rightarrow> y)"

definition truthyNum :: "rat option \<Rightarrow> bool" where
  "truthyNum x = (case x of Some v \<Rightarrow> v \<noteq> 0 | None \<Rightarrow> False)"

text \<open>
  \<^verbatim>\<open>
  function initGridMeta(frame: FrameNode, style: Record<string, string>) {
    const columns = countGridTracks(style['grid-template-columns']) || 2;
    const columnWidths = parseGridColumnWidths(style['grid-template-columns']);
    const columnGap = parsePx(style['column-gap']) ?? parsePx(style['gap']) ?? 0;
    const rowGap = parsePx(style['row-gap']) ?? parsePx(style['gap']) ?? 0;
    const totalWidth = columnWidths.length > 0
      ? columnWidths.reduce((a, b) => a + b, 0) + (columnGap * (columnWidths.length - 1))
      : undefined;
    const meta: GridMeta = { columns: Math.max(1, columns), columnGap, rowGap,
      childCount: 0, rows: [], columnWidths, totalWidth };
    gridMetaMap.set(frame, meta);
    frame.layoutMode = 'VERTICAL';
    frame.primaryAxisSizingMode = 'AUTO';
    frame.counterAxisSizingMode = totalWidth ? 'FIXED' : 'AUTO';
    if (totalWidth) { frame.resize(totalWidth, frame.height); }
    frame.itemSpacing = rowGap;
  }
  \<close>
\<close>

definition gridColumnGap :: "style \<Rightarrow> rat" where
  "gridColumnGap style =
     orZero (orElse (parsePx (sget style ''column-gap'')) (parsePx (sget style ''gap'')))"

definition gridRowGap :: "style \<Rightarrow> rat" where
  "gridRowGap style =
     orZero (orElse (parsePx (sget style ''row-gap'')) (parsePx (sget style ''gap'')))"

definition initGridMeta :: "nat \<Rightarrow> style \<Rightarrow> scene \<Rightarrow> scene" where
  "initGridMeta frame style s =
     (let counted = countGridTracks (sget style ''grid-template-columns'');
          columns' = (if counted = 0 then 2 else counted);
          columnWidths' = parseGridColumnWidths (sget style ''grid-template-columns'');
          columnGap' = gridColumnGap style;
          rowGap' = gridRowGap style;
          totalWidth' =
            (if length columnWidths' > 0
             then Some (foldl (+) 0 columnWidths'
                        + columnGap' * of_nat (length columnWidths' - 1))
             else None);
          meta = \<lparr>columns = max 1 columns', columnGap = columnGap', rowGap = rowGap',
                  childCount = 0, rows = Map.empty, columnWidths = columnWidths',
                  totalWidth = totalWidth'\<rparr>;
          s1 = s\<lparr>gridMetaMap := (gridMetaMap s)(frame \<mapsto> meta)\<rparr>;
          s2 = updNode frame
                 (\<lambda>n. n\<lparr>layoutMode := VERTICAL, primaryAxisSizingMode := AxisAUTO,
                         counterAxisSizingMode :=
                           (if truthyNum totalWidth' then AxisFIXED else AxisAUTO)\<rparr>) s1;
          s3 = (if truthyNum totalWidth'
                then resize frame (the totalWidth') (height (nodes s2 frame)) s2 else s2)
      in updNode frame (\<lambda>n. n\<lparr>itemSpacing := rowGap'\<rparr>) s3)"

definition isGridFrame :: "scene \<Rightarrow> nat \<Rightarrow> bool" where
  "isGridFrame s i = (ntype (nodes s i) = FRAME \<and> gridMetaMap s i \<noteq> None)"

text \<open>
  \<^verbatim>\<open>
  function appendToGridFrame(parent: FrameNode, child: SceneNode) {
    const meta = gridMetaMap.get(parent);
    if (!meta) { parent.appendChild(child); return; }
    const columns = Math.max(1, meta.columns);
    const index = meta.childCount;
    const rowIndex = Math.floor(index / columns);
    const colIndex = index % columns;
    let row = meta.rows[rowIndex];
    if (!row) {
      row = figma.createFrame();
      row.name = `row-${rowIndex + 1}`;
      row.layoutMode = 'HORIZONTAL';
      row.primaryAxisSizingMode = meta.totalWidth ? 'FIXED' : 'AUTO';
      row.counterAxisSizingMode = 'AUTO';
      if (meta.totalWidth) {
        row.resize(meta.totalWidth, row.height);
        row.layoutSizingHorizontal = 'FIXED';
      } else {
        row.layoutSizingHorizontal = 'FILL';
      }
      row.layoutSizingVertical = 'HUG';
      row.paddingTop = 0; row.paddingRight = 0; row.paddingBottom = 0; row.paddingLeft = 0;
      row.itemSpacing = meta.columnGap;
      row.fills = [];
      row.strokes = [];
      row.clipsContent = false;
      parent.appendChild(row);
      meta.rows[rowIndex] = row;
    }
    if (meta.columnWidths.length > colIndex && child.type === 'FRAME') {
      const colWidth = meta.columnWidths[colIndex];
      const frame = child as FrameNode;
      frame.layoutSizingHorizontal = 'FIXED';
      frame.layoutSizingVertical = 'HUG';
      frame.resize(colWidth, frame.height);
    } else if ('layoutGrow' in child) {
      try { (child as LayoutMixin).layoutGrow = 1; } catch { /* ignore */ }
    }
    row.appendChild(child);
    meta.childCount = index + 1;
  }
  \<close>
  \<^verbatim>\<open>layoutGrow\<close> is not a field of the model, so the second branch leaves the child as
  it is. \<open>showNat\<close> is the decimal text of a number, for the name of a row.
\<close>

definition digitChar :: "nat \<Rightarrow> char" where
  "digitChar n = ''0123456789'' ! n"

function showNat :: "nat \<Rightarrow> string" where
  "showNat n = (if n < 10 then [digitChar n] else showNat (n div 10) @ [digitChar (n mod 10)])"
  by pat_completeness auto
termination
  by (relation "measure id") auto

declare showNat.simps [simp del]

definition newGridRow :: "host \<Rightarrow> nat \<Rightarrow> GridMeta \<Rightarrow> nat \<Rightarrow> scene \<Rightarrow> nat \<times> scene" where
  "newGridRow h parent' meta rowIndex s =
     (let (row, s1) = createFrame h s;
          s2 = updNode row
                 (\<lambda>n. n\<lparr>name := ''row-'' @ showNat (rowIndex + 1), layoutMode := HORIZONTAL,
                         primaryAxisSizingMode :=
                           (if truthyNum (totalWidth meta) then AxisFIXED else AxisAUTO),
                         counterAxisSizingMode := AxisAUTO\<rparr>) s1;
          s3 = (if truthyNum (totalWidth meta)
                then updNode row (\<lambda>n. n\<lparr>layoutSizingHorizontal := SizeFIXED\<rparr>)
                       (resize row (the (totalWidth meta)) (height (nodes s2 row)) s2)
                else updNode row (\<lambda>n. n\<lparr>layoutSizingHorizontal := SizeFILL\<rparr>) s2);
          s4 = updNode row
                 (\<lambda>n. n\<lparr>layoutSizingVertical := SizeHUG, paddingTop := 0, paddingRight := 0,
                         paddingBottom := 0, paddingLeft := 0, itemSpacing := columnGap meta,
                         fills := [], clipsContent := False\<rparr>) s3
      in (row, appendChild parent' row s4))"

definition appendToGridFrame :: "host \<Rightarrow> nat \<Rightarrow> nat \<Rightarrow> scene \<Rightarrow> scene" where
  "appendToGridFrame h parent' child s =
     (case gridMetaMap s parent' of
        None \<Rightarrow> appendChild parent' child s
      | Some meta \<Rightarrow>
          let columns' = max 1 (columns meta);
              index = childCount meta;
              rowIndex = index div columns';
              colIndex = index mod columns';
              (row, s1) = (case rows meta rowIndex of
                             Some r \<Rightarrow> (r, s)
                           | None \<Rightarrow> newGridRow h parent' meta rowIndex s);
              rows' = (case rows meta rowIndex of
                         Some r \<Rightarrow> rows meta
                       | None \<Rightarrow> (rows meta)(rowIndex \<mapsto> row));
              s2 = (if length (columnWidths meta) > colIndex \<and> ntype (nodes s1 child) = FRAME
                    then resize child (columnWidths meta ! colIndex) (height (nodes s1 child))
                           (updNode child
                              (\<lambda>n. n\<lparr>layoutSizingHorizontal := SizeFIXED,
                                      layoutSizingVertical := SizeHUG\<rparr>) s1)
                    else s1);
              s3 = appendChild row child s2
          in s3\<lparr>gridMetaMap :=
                   (gridMetaMap s3)(parent' \<mapsto> meta\<lparr>rows := rows', childCount := index + 1\<rparr>)\<rparr>)"

subsection \<open>Margins\<close>

text \<open>
  \<^verbatim>\<open>
  function appendWithMargin(parent: FrameNode, child: SceneNode,
                            style: Record<string, string>, _opts) {
    if (isGridFrame(parent)) { appendToGridFrame(parent, child); return; }
    const margin = getBox(style, 'margin');
    const hasMargin = margin.top || margin.right || margin.bottom || margin.left;
    const parentFrame = parent as FrameNode;
    const isAutoLayout = parentFrame.layoutMode !== 'NONE';
    if (isAutoLayout && hasMargin) {
      const wrap = figma.createFrame();
      wrap.name = 'margin';
      wrap.fills = [];
      wrap.layoutMode = 'VERTICAL';
      wrap.primaryAxisSizingMode = 'AUTO';
      wrap.counterAxisSizingMode = 'AUTO';
      wrap.paddingTop = margin.top;
      wrap.paddingRight = margin.right;
      wrap.paddingBottom = margin.bottom;
      wrap.paddingLeft = margin.left;
      parentFrame.appendChild(wrap);
      wrap.appendChild(child);
      wrap.layoutSizingHorizontal = 'FILL';
      if (child.type === 'FRAME') { child.layoutSizingHorizontal = 'FILL'; }
      return;
    }
    parentFrame.appendChild(child);
  }
  \<close>
\<close>

definition hasMargin :: "Box \<Rightarrow> bool" where
  "hasMargin m = (boxTop m \<noteq> 0 \<or> boxRight m \<noteq> 0 \<or> boxBottom m \<noteq> 0 \<or> boxLeft m \<noteq> 0)"

definition appendWithMargin :: "host \<Rightarrow> nat \<Rightarrow> nat \<Rightarrow> style \<Rightarrow> scene \<Rightarrow> scene" where
  "appendWithMargin h parent' child style s =
     (if isGridFrame s parent' then appendToGridFrame h parent' child s
      else let margin = getBox style ''margin'' in
        if layoutMode (nodes s parent') \<noteq> NONE \<and> hasMargin margin then
          (let (wrap, s1) = createFrame h s;
               s2 = updNode wrap
                      (\<lambda>n. n\<lparr>name := ''margin'', fills := [], layoutMode := VERTICAL,
                              primaryAxisSizingMode := AxisAUTO,
                              counterAxisSizingMode := AxisAUTO,
                              paddingTop := boxTop margin, paddingRight := boxRight margin,
                              paddingBottom := boxBottom margin,
                              paddingLeft := boxLeft margin\<rparr>) s1;
               s3 = appendChild wrap child (appendChild parent' wrap s2);
               s4 = updNode wrap (\<lambda>n. n\<lparr>layoutSizingHorizontal := SizeFILL\<rparr>) s3
           in if ntype (nodes s4 child) = FRAME
              then updNode child (\<lambda>n. n\<lparr>layoutSizingHorizontal := SizeFILL\<rparr>) s4
              else s4)
        else appendChild parent' child s)"

subsection \<open>Flex and block containers\<close>

text \<open>\<^verbatim>\<open>style[key] || dflt\<close>.\<close>

definition orDefault :: "string option \<Rightarrow> string \<Rightarrow> string" where
  "orDefault v dflt = (if truthy v then the v else dflt)"

text \<open>
  \<^verbatim>\<open>
  function mapPrimaryAlign(value: string) {
    if (value.includes('space-between')) return 'SPACE_BETWEEN';
    if (value.includes('center')) return 'CENTER';
    if (value.includes('end')) return 'MAX';
    return 'MIN';
  }
  function mapCounterAlign(value: string) {
    if (value.includes('center')) return 'CENTER';
    if (value.includes('end')) return 'MAX';
    return 'MIN';
  }
  \<close>
\<close>

definition mapPrimaryAlign :: "string \<Rightarrow> alignItems" where
  "mapPrimaryAlign v =
     (if includesStr v ''space-between'' then AlignSPACE_BETWEEN
      else if includesStr v ''center'' then AlignCENTER
      else if includesStr v ''end'' then AlignMAX
      else AlignMIN)"

definition mapCounterAlign :: "string \<Rightarrow> alignItems" where
  "mapCounterAlign v =
     (if includesStr v ''center'' then AlignCENTER
      else if includesStr v ''end'' then AlignMAX
      else AlignMIN)"

text \<open>
  \<^verbatim>\<open>
  function configureLayoutForFrame(node, style, opts: { autoLayout?: boolean }) {
    const display = (style['display'] || '').toLowerCase();
    if (display === 'grid' || display === 'inline-grid') {
      initGridMeta(node, style);
      return;
    }
    const wantsAuto = opts.autoLayout || display === 'flex' || display === 'inline-flex'
      || display === 'block' || display === '';
    if (!wantsAuto) { node.layoutMode = 'NONE'; return; }
    const isFlex = display === 'flex' || display === 'inline-flex';
    const direction = isFlex ? (style['flex-direction'] || 'row').toLowerCase() : 'column';
    node.layoutMode = direction === 'row' ? 'HORIZONTAL' : 'VERTICAL';
    node.primaryAxisSizingMode = 'AUTO';
    node.counterAxisSizingMode = 'AUTO';
    const padding = getBox(style, 'padding');
    node.paddingTop = padding.top;
    node.paddingRight = padding.right;
    node.paddingBottom = padding.bottom;
    node.paddingLeft = padding.left;
    const gapAll = parsePx(style['gap']);
    const rowGap = parsePx(style['row-gap']);
    const columnGap = parsePx(style['column-gap']);
    node.itemSpacing = direction === 'row' ? (columnGap ?? gapAll ?? 6) : (rowGap ?? gapAll ?? 6);
    const justify = (style['justify-content'] || '').toLowerCase();
    const align = (style['align-items'] || '').toLowerCase();
    node.primaryAxisAlignItems = mapPrimaryAlign(justify);
    node.counterAxisAlignItems = mapCounterAlign(align);
  }
  \<close>
\<close>

definition orSix :: "rat option \<Rightarrow> rat" where
  "orSix v = (case v of None \<Rightarrow> 6 | Some x \<Rightarrow> x)"

definition configureLayoutForFrame :: "nat \<Rightarrow> style \<Rightarrow> bool \<Rightarrow> scene \<Rightarrow> scene" where
  "configureLayoutForFrame i style autoLayout s =
     (let display = toLowerCase (orDefault (sget style ''display'') []) in
      if display = ''grid'' \<or> display = ''inline-grid'' then initGridMeta i style s
      else if \<not> (autoLayout \<or> display = ''flex'' \<or> display = ''inline-flex''
                  \<or> display = ''block'' \<or> display = [])
        then updNode i (\<lambda>n. n\<lparr>layoutMode := NONE\<rparr>) s
      else
        let isFlex = (display = ''flex'' \<or> display = ''inline-flex'');
            direction = (if isFlex
                         then toLowerCase (orDefault (sget style ''flex-direction'') ''row'')
                         else ''column'');
            padding = getBox style ''padding'';
            gapAll = parsePx (sget style ''gap'');
            rowGap' = parsePx (sget style ''row-gap'');
            columnGap' = parsePx (sget style ''column-gap'');
            justify = toLowerCase (orDefault (sget style ''justify-content'') []);
            align = toLowerCase (orDefault (sget style ''align-items'') [])
        in updNode i
             (\<lambda>n. n\<lparr>layoutMode := (if direction = ''row'' then HORIZONTAL else VERTICAL),
                     primaryAxisSizingMode := AxisAUTO,
                     counterAxisSizingMode := AxisAUTO,
                     paddingTop := boxTop padding, paddingRight := boxRight padding,
                     paddingBottom := boxBottom padding, paddingLeft := boxLeft padding,
                     itemSpacing := (if direction = ''row''
                                     then orSix (orElse columnGap' gapAll)
                                     else orSix (orElse rowGap' gapAll)),
                     primaryAxisAlignItems := mapPrimaryAlign justify,
                     counterAxisAlignItems := mapCounterAlign align\<rparr>) s)"

text \<open>
  \<^verbatim>\<open>
  function applyExplicitSizing(node: FrameNode, style: Record<string, string>) {
    const width = parsePx(style['width']);
    const height = parsePx(style['height']);
    const minHeight = parsePx(style['min-height']);
    if (width === undefined && height === undefined && minHeight === undefined) return;
    const isVertical = node.layoutMode === 'VERTICAL';
    if (width !== undefined) {
      if (isVertical) { node.counterAxisSizingMode = 'FIXED'; }
      else { node.primaryAxisSizingMode = 'FIXED'; }
    }
    const effectiveHeight = height ?? minHeight;
    if (effectiveHeight !== undefined) {
      if (isVertical) { node.primaryAxisSizingMode = 'FIXED'; }
      else { node.counterAxisSizingMode = 'FIXED'; }
    }
    const newWidth = width ?? node.width;
    const newHeight = effectiveHeight ?? node.height;
    if (newWidth > 0 && newHeight > 0) { node.resize(newWidth, newHeight); }
  }
  \<close>
\<close>

definition applyExplicitSizing :: "nat \<Rightarrow> style \<Rightarrow> scene \<Rightarrow> scene" where
  "applyExplicitSizing i style s =
     (let width' = parsePx (sget style ''width'');
          height' = parsePx (sget style ''height'');
          minHeight = parsePx (sget style ''min-height'')
      in if width' = None \<and> height' = None \<and> minHeight = None then s
         else
           let isVertical = (layoutMode (nodes s i) = VERTICAL);
               s1 = (if width' \<noteq> None
                     then (if isVertical
                           then updNode i (\<lambda>n. n\<lparr>counterAxisSizingMode := AxisFIXED\<rparr>) s
                           else updNode i (\<lambda>n. n\<lparr>primaryAxisSizingMode := AxisFIXED\<rparr>) s)
                     else s);
               effectiveHeight = orElse height' minHeight;
               s2 = (if effectiveHeight \<noteq> None
                     then (if isVertical
                           then updNode i (\<lambda>n. n\<lparr>primaryAxisSizingMode := AxisFIXED\<rparr>) s1
                           else updNode i (\<lambda>n. n\<lparr>counterAxisSizingMode := AxisFIXED\<rparr>) s1)
                     else s1);
               newWidth = (case width' of Some w \<Rightarrow> w | None \<Rightarrow> width (nodes s2 i));
               newHeight = (case effectiveHeight of Some v \<Rightarrow> v | None \<Rightarrow> height (nodes s2 i))
           in if newWidth > 0 \<and> newHeight > 0 then resize i newWidth newHeight s2 else s2)"

section \<open>Paint and asset resolver\<close>

text \<open>
  \<^verbatim>\<open>
  function parseGradientPaint(value?: string): GradientPaint | null {
    if (!value) return null;
    const normalized = value.trim();
    if (!normalized || normalized === 'none' || !normalized.includes('gradient')) return null;
    try {
      const ast = gradientParser.parse(normalized);
      ... null when the list of gradients or of colour stops is empty ...
    } catch (error) { return null; }
  }
  \<close>
  The library call and what is built from its result are the host's \<open>gradientParses\<close>.
\<close>

definition parseGradientPaint :: "host \<Rightarrow> string option \<Rightarrow> paint option" where
  "parseGradientPaint h v =
     (if \<not> truthy v then None
      else let normalized = trim (the v) in
        if normalized = [] \<or> normalized = ''none'' \<or> \<not> includesStr normalized ''gradient''
        then None
        else if gradientParses h normalized then Some (GradientPaint normalized) else None)"

text \<open>
  \<^verbatim>\<open>
  function extractImageReference(value?: string): string | null {
    if (!value) return null;
    const urlPattern = /url\((['"]?)(.+?)\1\)/i;
    const match = urlPattern.exec(value);
    return match ? match[2] : null;
  }
  \<close>
  \<open>lazyUntil close acc rest\<close> is the lazy group \<^verbatim>\<open>(.+?)\<close> followed by \<open>close\<close>: it takes
  one character that is not a line terminator, and one more each time \<open>close\<close> does not
  follow. \<open>urlAt\<close> tries the quoted form first and, if that fails, the form with an empty
  first group.
\<close>

definition isLineTerminator :: "char \<Rightarrow> bool" where
  "isLineTerminator c = (c = CHR 0x0A \<or> c = CHR 0x0D)"

fun lazyUntil :: "string \<Rightarrow> string \<Rightarrow> string \<Rightarrow> string option" where
  "lazyUntil close acc [] = None"
| "lazyUntil close acc (c # cs) =
     (if isLineTerminator c then None
      else if prefix close cs then Some (rev (c # acc))
      else lazyUntil close (c # acc) cs)"

definition urlAt :: "string \<Rightarrow> string option" where
  "urlAt s =
     (if toLowerCase (take 4 s) = ''url('' then
        (let r = drop 4 s in
         if r \<noteq> [] \<and> (hd r = CHR 0x27 \<or> hd r = CHR 0x22) then
           (case lazyUntil (hd r # '')'') [] (tl r) of
              Some m \<Rightarrow> Some m
            | None \<Rightarrow> lazyUntil '')'' [] r)
         else lazyUntil '')'' [] r)
      else None)"

fun urlExec :: "string \<Rightarrow> string option" where
  "urlExec [] = None"
| "urlExec (c # cs) = (case urlAt (c # cs) of Some m \<Rightarrow> Some m | None \<Rightarrow> urlExec cs)"

definition extractImageReference :: "string option \<Rightarrow> string option" where
  "extractImageReference v = (if \<not> truthy v then None else urlExec (the v))"

text \<open>
  \<^verbatim>\<open>
  function scheduleBackgroundFill(node, style, pending: Promise<void>[]) {
    const appliedGradient = parseGradientPaint(style['background-image']);
    if (appliedGradient) { node.fills = [appliedGradient]; return true; }
    const imageRef = extractImageReference(style['background-image']);
    if (imageRef) {
      pending.push((async () => {
        const paint = await createImagePaintFromSource(imageRef, style);
        if (paint) { node.fills = [paint]; }
      })());
      return true;
    }
    return false;
  }
  \<close>
\<close>

definition scheduleBackgroundFill :: "host \<Rightarrow> nat \<Rightarrow> style \<Rightarrow> scene \<Rightarrow> bool \<times> scene" where
  "scheduleBackgroundFill h i style s =
     (case parseGradientPaint h (sget style ''background-image'') of
        Some g \<Rightarrow> (True, updNode i (\<lambda>n. n\<lparr>fills := [g]\<rparr>) s)
      | None \<Rightarrow>
          (case extractImageReference (sget style ''background-image'') of
             Some imageRef \<Rightarrow> (True, s\<lparr>pending := pending s @ [FillTask i imageRef style]\<rparr>)
           | None \<Rightarrow> (False, s)))"

text \<open>
  \<^verbatim>\<open>
  function scheduleImageFill(node, src: string | undefined, pending, style?) {
    if (!src) return;
    pending.push((async () => {
      const paint = await createImagePaintFromSource(src, style);
      if (paint) { node.fills = [paint]; }
    })());
  }
  \<close>
\<close>

definition scheduleImageFill :: "nat \<Rightarrow> string option \<Rightarrow> style \<Rightarrow> scene \<Rightarrow> scene" where
  "scheduleImageFill i src style s =
     (if \<not> truthy src then s else s\<lparr>pending := pending s @ [FillTask i (the src) style]\<rparr>)"

text \<open>
  \<^verbatim>\<open>
  function applyBackgroundPaint(node: FrameNode, style, pending: Promise<void>[]) {
    const backgroundHandled = scheduleBackgroundFill(node, style, pending);
    if (backgroundHandled) return;
    const rgba = parseColorWithAlpha(style['background-color']);
    if (rgba && rgba.a > 0) {
      node.fills = [{ type: 'SOLID', color: { r: rgba.r, g: rgba.g, b: rgba.b },
                      opacity: rgba.a }];
    } else {
      node.fills = [];
    }
  }
  \<close>
\<close>

definition positive :: "jsnum \<Rightarrow> bool" where
  "positive x = (case x of NaN \<Rightarrow> False | Num q \<Rightarrow> q > 0)"

definition solidFills :: "string option \<Rightarrow> paint list option" where
  "solidFills v =
     (case parseColorWithAlpha v of
        Some (RGBA r g b a) \<Rightarrow> if positive a then Some [SolidPaint r g b a] else None
      | None \<Rightarrow> None)"

definition applyBackgroundPaint :: "host \<Rightarrow> nat \<Rightarrow> style \<Rightarrow> scene \<Rightarrow> scene" where
  "applyBackgroundPaint h i style s =
     (let (backgroundHandled, s1) = scheduleBackgroundFill h i style s in
      if backgroundHandled then s1
      else case solidFills (sget style ''background-color'') of
        Some fs \<Rightarrow> updNode i (\<lambda>n. n\<lparr>fills := fs\<rparr>) s1
      | None \<Rightarrow> updNode i (\<lambda>n. n\<lparr>fills := []\<rparr>) s1)"

text \<open>
  \<^verbatim>\<open>
  function applyFrameBoxStyle(f: FrameNode, style, opts, pending) {
    // Disable content clipping to prevent shadows and content from being cut off
    f.clipsContent = false;
    applyBackgroundPaint(f, style, pending);
    applyCornerRadiiFromStyle(f, style);
    applyBorder(f, style);
    applyBoxShadow(f, style);
    applyOpacityFromStyle(f, style);
    configureLayoutForFrame(f, style, opts);
    applyExplicitSizing(f, style);
  }
  \<close>
  Corner radii, border, shadow and opacity are not fields of the model.
\<close>

definition applyFrameBoxStyle :: "host \<Rightarrow> nat \<Rightarrow> style \<Rightarrow> bool \<Rightarrow> scene \<Rightarrow> scene" where
  "applyFrameBoxStyle h f style autoLayout s =
     applyExplicitSizing f style
       (configureLayoutForFrame f style autoLayout
          (applyBackgroundPaint h f style
             (updNode f (\<lambda>n. n\<lparr>clipsContent := False\<rparr>) s)))"

text \<open>
  What a pending task does once its fetch has come back: when it gets a paint it assigns
  it to its node, and when it does not it leaves the node as it is.
  \<^verbatim>\<open>
  async function createImagePaintFromSource(src, style) {
    const bytes = await fetchImageBytes(src);
    if (!bytes) return null;
    const image = figma.createImage(bytes);
    const size = (style?.['background-size'] || '').toLowerCase();
    let scaleMode = 'FILL';
    if (size.includes('contain')) { scaleMode = 'FIT'; }
    else if (size.includes('tile')) { scaleMode = 'TILE'; }
    return { type: 'IMAGE', imageHash: image.hash, scaleMode };
  }
  \<close>
\<close>

definition createImagePaintFromSource :: "host \<Rightarrow> string \<Rightarrow> style \<Rightarrow> paint option" where
  "createImagePaintFromSource h src style =
     (if \<not> imagePaintOk h src then None
      else let size' = toLowerCase (orDefault (sget style ''background-size'') []) in
        Some (ImagePaint src
                (if includesStr size' ''contain'' then ScaleFIT
                 else if includesStr size' ''tile'' then ScaleTILE
                 else ScaleFILL)))"

definition runTask :: "host \<Rightarrow> task \<Rightarrow> scene \<Rightarrow> scene" where
  "runTask h t s =
     (case t of FillTask i src style \<Rightarrow>
        (case createImagePaintFromSource h src style of
           Some p \<Rightarrow> updNode i (\<lambda>n. n\<lparr>fills := [p]\<rparr>) s
         | None \<Rightarrow> s))"

text \<open>
  An await of the builder: the pending tasks whose fetch has come back by then run, in
  the order in which they were pushed, and are no longer pending. The await on the
  pending list after the walk lets all the remaining ones run.
  \<^verbatim>\<open>
  const waitForPending = async () => {
    if (!pendingFills.length) return;
    await Promise.all(pendingFills.map((task) => task.catch(() => undefined)));
  };
  \<close>
\<close>

definition ready :: "host \<Rightarrow> scene \<Rightarrow> task \<Rightarrow> bool" where
  "ready h s t = (case t of FillTask i src style \<Rightarrow> fetched h s src)"

definition settle :: "host \<Rightarrow> scene \<Rightarrow> scene" where
  "settle h s =
     foldl (\<lambda>s' t. runTask h t s')
       (s\<lparr>pending := filter (\<lambda>t. \<not> ready h s t) (pending s)\<rparr>)
       (filter (ready h s) (pending s))"

definition waitForPending :: "host \<Rightarrow> scene \<Rightarrow> scene" where
  "waitForPending h s = foldl (\<lambda>s' t. runTask h t s') (s\<lparr>pending := []\<rparr>) (pending s)"

section \<open>Scene graph builder\<close>

subsection \<open>Text content and fonts of an element\<close>

text \<open>
  \<^verbatim>\<open>
  function childrenText(children?: JsonNode[]): string {
    if (!children?.length) return '';
    let out = '';
    for (const c of children) {
      if ((c as any).kind === 'text') out += (c as any).text + ' ';
      else out += childrenText((c as any).children) + ' ';
    }
    return out.trim();
  }
  \<close>
\<close>

fun nodeText :: "JsonNode \<Rightarrow> string" where
  "nodeText (TextNode t) = t"
| "nodeText (ElementNode tag attrs style' ch) = trim (concat (map (\<lambda>c. nodeText c @ '' '') ch))"

definition childrenText :: "JsonNode list \<Rightarrow> string" where
  "childrenText ch = trim (concat (map (\<lambda>c. nodeText c @ '' '') ch))"

text \<open>
  \<^verbatim>\<open>
  function stripQuotes(value: string): string {
    return value.replaceAll(/^['"]+/g, '').replaceAll(/['"]+$/g, '');
  }
  function resolveFontFamily(style: Record<string, string>): string {
    const raw = style['font-family'] || '';
    const candidates = raw.split(',').map((s) => stripQuotes(s.trim())).filter(Boolean);
    if (candidates.length) return candidates[0];
    return 'Inter';
  }
  function resolveFontStyleName(style: Record<string, string>): string {
    const weightRaw = (style['font-weight'] || '').toLowerCase();
    let weightNum = 400;
    if (/^\d+$/.test(weightRaw)) { weightNum = Number(weightRaw); }
    else if (weightRaw.includes('bold')) { weightNum = 700; }
    const italic = (style['font-style'] || '').toLowerCase().includes('italic');
    if (weightNum >= 700) return italic ? 'Bold Italic' : 'Bold';
    return italic ? 'Italic' : 'Regular';
  }
  \<close>
\<close>

definition isQuote :: "char \<Rightarrow> bool" where
  "isQuote c = (c = CHR 0x27 \<or> c = CHR 0x22)"

definition stripQuotes :: "string \<Rightarrow> string" where
  "stripQuotes v = rev (dropWhile isQuote (rev (dropWhile isQuote v)))"

fun splitCommaFrom :: "string \<Rightarrow> string \<Rightarrow> string list" where
  "splitCommaFrom cur [] = [rev cur]"
| "splitCommaFrom cur (c # cs) =
     (if c = CHR '','' then rev cur # splitCommaFrom [] cs else splitCommaFrom (c # cur) cs)"

definition resolveFontFamily :: "style \<Rightarrow> string" where
  "resolveFontFamily style =
     (let raw = orDefault (sget style ''font-family'') [];
          candidates = filter (\<lambda>c. c \<noteq> []) (map (\<lambda>p. stripQuotes (trim p)) (splitCommaFrom [] raw))
      in case candidates of c # _ \<Rightarrow> c | [] \<Rightarrow> ''Inter'')"

definition resolveFontStyleName :: "style \<Rightarrow> string" where
  "resolveFontStyleName style =
     (let weightRaw = toLowerCase (orDefault (sget style ''font-weight'') []);
          weightNum = (if weightRaw \<noteq> [] \<and> list_all isDigit weightRaw then digitsVal weightRaw
                       else if includesStr weightRaw ''bold'' then 700 else 400);
          italic = includesStr (toLowerCase (orDefault (sget style ''font-style'') [])) ''italic''
      in if weightNum \<ge> 700 then (if italic then ''Bold Italic'' else ''Bold'')
         else (if italic then ''Italic'' else ''Regular''))"

text \<open>
  Every text node is given its font the same way:
  \<^verbatim>\<open>
  const family = resolveFontFamily(style);
  const styleName = resolveFontStyleName(style);
  const alias = fontAliasMap.get(`${family}__${styleName}`);
  const fontToUse = alias ?? fontNameOf(family, styleName);
  try {
    await figma.loadFontAsync(fontToUse);
    textNode.fontName = fontToUse;
  } catch {
    await figma.loadFontAsync({ family: 'Inter', style: 'Regular' });
    textNode.fontName = { family: 'Inter', style: 'Regular' };
  }
  \<close>
  The second \<^verbatim>\<open>loadFontAsync\<close> is outside any \<^verbatim>\<open>try\<close>: when it rejects, the render
  function rejects, and with it the whole import. The result is the font of the node.
  The render functions await here, after they have created the text node: this is an
  await of the builder (\<open>settle\<close>).
\<close>

definition loadTextFont ::
  "host \<Rightarrow> (string \<rightharpoonup> FontName) \<Rightarrow> style \<Rightarrow> error + FontName" where
  "loadTextFont h aliasMap style =
     (let family = resolveFontFamily style;
          styleName = resolveFontStyleName style;
          fontToUse = (case aliasMap (family @ ''__'' @ styleName) of
                         Some alias \<Rightarrow> alias
                       | None \<Rightarrow> fontNameOf family styleName)
      in if loadFont h fontToUse then Inr fontToUse
         else if loadFont h (''Inter'', ''Regular'') then Inr (''Inter'', ''Regular'')
         else Inl (FontLoadError (''Inter'', ''Regular'')))"

text \<open>
  \<^verbatim>\<open>applyTextStyle\<close> assigns the typographic properties of a text node and, of the
  fields of the model, its fills:
  \<^verbatim>\<open>
  const color = parseColorWithAlpha(style['color']);
  if (color && color.a > 0)
    t.fills = [{ type: 'SOLID', color: { r: color.r, g: color.g, b: color.b },
                 opacity: color.a }];
  \<close>
\<close>

definition applyTextStyle :: "nat \<Rightarrow> style \<Rightarrow> scene \<Rightarrow> scene" where
  "applyTextStyle t style s =
     (case solidFills (sget style ''color'') of
        Some fs \<Rightarrow> updNode t (\<lambda>n. n\<lparr>fills := fs\<rparr>) s
      | None \<Rightarrow> s)"

subsection \<open>The render functions\<close>

text \<open>
  The context of the renderer: the host, the import option \<^verbatim>\<open>autoLayout\<close> and the alias
  map that the font pass has filled. The counter \<^verbatim>\<open>created\<close> only decides whether
  \<^verbatim>\<open>maybeYield\<close> also waits for a timer; \<^verbatim>\<open>await maybeYield()\<close> is an await of the
  builder in both cases, so the counter is left out.
\<close>

record ctx =
  hostOf :: host
  optAutoLayout :: bool
  aliases :: "string \<rightharpoonup> FontName"

definition HEADING_TAGS :: "string list" where
  "HEADING_TAGS = [''h1'', ''h2'', ''h3'', ''h4'', ''h5'', ''h6'']"

definition INLINE_TEXT_TAGS :: "string list" where
  "INLINE_TEXT_TAGS =
     [''p'', ''span'', ''a'', ''li'', ''strong'', ''em'', ''u'', ''s'', ''b'', ''i'', ''label'',
      ''small'', ''mark'', ''code'', ''pre'', ''blockquote'']"

definition LIST_CONTAINER_TAGS :: "string list" where
  "LIST_CONTAINER_TAGS = [''ul'', ''ol'']"

definition BUTTON_TAGS :: "string list" where
  "BUTTON_TAGS = [''button'', ''input'', ''textarea'']"

definition SVG_TAGS :: "string list" where
  "SVG_TAGS =
     [''svg'', ''path'', ''circle'', ''rect'', ''line'', ''polyline'', ''polygon'', ''ellipse'',
      ''g'', ''defs'', ''use'', ''symbol'', ''text'', ''tspan'']"

text \<open>
  \<^verbatim>\<open>renderPlainTextNode(json, parent, inheritedStyle)\<close>: the style is the inherited one,
  or the empty style; \<^verbatim>\<open>applyTextStyle\<close> runs when the style has a key.
\<close>

definition renderPlainTextNode ::
  "ctx \<Rightarrow> string \<Rightarrow> nat \<Rightarrow> style option \<Rightarrow> scene \<Rightarrow> error + scene" where
  "renderPlainTextNode cx text' parent' inheritedStyle s =
     (let (textNode, s0) = createText (hostOf cx) s;
          style = (case inheritedStyle of Some st \<Rightarrow> st | None \<Rightarrow> []);
          s1 = settle (hostOf cx) s0
      in case loadTextFont (hostOf cx) (aliases cx) style of
           Inl e \<Rightarrow> Inl e
         | Inr _ \<Rightarrow>
             (let s2 = updNode textNode (\<lambda>n. n\<lparr>characters := text'\<rparr>) s1;
                  s3 = (if style \<noteq> [] then applyTextStyle textNode style s2 else s2)
              in Inr (appendWithMargin (hostOf cx) parent' textNode style s3)))"

text \<open>
  \<^verbatim>\<open>renderHeading(el, parent, nodeId, tag)\<close>: the weight defaults to 700; the text is
  that of the children, or the tag in upper case.
\<close>

definition withDefault :: "style \<Rightarrow> string \<Rightarrow> string \<Rightarrow> style" where
  "withDefault style key v = (if truthy (sget style key) then style else (key, v) # style)"

definition renderHeading ::
  "ctx \<Rightarrow> style \<Rightarrow> JsonNode list \<Rightarrow> nat \<Rightarrow> string \<Rightarrow> scene \<Rightarrow> error + scene" where
  "renderHeading cx style0 ch parent' tag s =
     (let (textNode, s0) = createText (hostOf cx) s;
          style = withDefault style0 ''font-weight'' ''700'';
          s1 = settle (hostOf cx) s0
      in case loadTextFont (hostOf cx) (aliases cx) style of
           Inl e \<Rightarrow> Inl e
         | Inr _ \<Rightarrow>
             (let txt = (if childrenText ch \<noteq> [] then childrenText ch else toUpperCase tag);
                  s2 = updNode textNode (\<lambda>n. n\<lparr>characters := txt\<rparr>) s1;
                  s3 = applyTextStyle textNode style s2
              in Inr (appendWithMargin (hostOf cx) parent' textNode style s3)))"

text \<open>
  \<^verbatim>\<open>renderInlineText(el, parent, nodeId, tag)\<close>: an empty list item shows the text
  of the literal in the source, which is three characters (U+00E2, U+20AC, U+00A2: a
  bullet that was decoded with the wrong character set), here the seven bytes of their
  UTF-8 encoding as they stand in the source file; a link with a target is named after
  it and underlined by default.
\<close>

definition BULLET :: string where
  "BULLET = [CHR 0xC3, CHR 0xA2, CHR 0xE2, CHR 0x82, CHR 0xAC, CHR 0xC2, CHR 0xA2]"

definition renderInlineText ::
  "ctx \<Rightarrow> style \<Rightarrow> style \<Rightarrow> JsonNode list \<Rightarrow> nat \<Rightarrow> string \<Rightarrow> scene \<Rightarrow> error + scene" where
  "renderInlineText cx attrs style0 ch parent' tag s =
     (let (textNode, s1) = createText (hostOf cx) s;
          textContent = (if tag = ''li'' \<and> childrenText ch = [] then BULLET else childrenText ch);
          isLink = (tag = ''a'' \<and> truthy (sget attrs ''href''));
          s2 = (if isLink
                then updNode textNode (\<lambda>n. n\<lparr>name := ''link: '' @ the (sget attrs ''href'')\<rparr>) s1
                else s1);
          style = (if isLink then withDefault style0 ''text-decoration'' ''underline'' else style0);
          s2' = settle (hostOf cx) s2
      in case loadTextFont (hostOf cx) (aliases cx) style of
           Inl e \<Rightarrow> Inl e
         | Inr _ \<Rightarrow>
             (let s3 = updNode textNode (\<lambda>n. n\<lparr>characters := textContent\<rparr>) s2';
                  s4 = applyTextStyle textNode style s3
              in Inr (appendWithMargin (hostOf cx) parent' textNode style s4)))"

text \<open>
  \<^verbatim>\<open>
  async function renderListContainer(el, parent, nodeId) {
    const frame = figma.createFrame();
    frame.name = el.tag;
    applyFrameBoxStyle(frame, el.style, { autoLayout: true }, pendingFills);
    frame.itemSpacing = 4;
    appendWithMargin(parent, frame, el.style, opts);
    if (parent.layoutMode !== 'NONE') { frame.layoutSizingHorizontal = 'FILL'; }
    registerNodeRef(nodeId, frame);
    created++;
    await renderNodes(el.children || [], frame, el.style);
  }
  \<close>
  \<open>listContainerFrame\<close> is the function up to the recursive call; it returns the frame.
\<close>

definition listContainerFrame :: "ctx \<Rightarrow> string \<Rightarrow> style \<Rightarrow> nat \<Rightarrow> scene \<Rightarrow> nat \<times> scene" where
  "listContainerFrame cx tag style parent' s =
     (let (frame, s1) = createFrame (hostOf cx) s;
          s2 = updNode frame (\<lambda>n. n\<lparr>name := tag\<rparr>) s1;
          s3 = applyFrameBoxStyle (hostOf cx) frame style True s2;
          s4 = updNode frame (\<lambda>n. n\<lparr>itemSpacing := 4\<rparr>) s3;
          s5 = appendWithMargin (hostOf cx) parent' frame style s4
      in (frame,
          if layoutMode (nodes s5 parent') \<noteq> NONE
          then updNode frame (\<lambda>n. n\<lparr>layoutSizingHorizontal := SizeFILL\<rparr>) s5 else s5))"

text \<open>
  \<^verbatim>\<open>
  async function renderButtonElement(el, parent, nodeId) {
    const frame = figma.createFrame();
    frame.name = el.tag;
    applyFrameBoxStyle(frame, el.style, { autoLayout: true }, pendingFills);
    const buttonText = childrenText(el.children) || el.attrs?.value || '';
    if (buttonText) {
      const textNode = figma.createText();
      ... the font of the text node, as above ...
      textNode.characters = buttonText;
      applyTextStyle(textNode, el.style);
      frame.appendChild(textNode);
    }
    appendWithMargin(parent, frame, el.style, opts);
    registerNodeRef(nodeId, frame);
    created++;
  }
  \<close>
\<close>

definition renderButtonElement ::
  "ctx \<Rightarrow> string \<Rightarrow> style \<Rightarrow> style \<Rightarrow> JsonNode list \<Rightarrow> nat \<Rightarrow> scene \<Rightarrow> error + scene" where
  "renderButtonElement cx tag attrs style ch parent' s =
     (let (frame, s1) = createFrame (hostOf cx) s;
          s2 = updNode frame (\<lambda>n. n\<lparr>name := tag\<rparr>) s1;
          s3 = applyFrameBoxStyle (hostOf cx) frame style True s2;
          buttonText = (if childrenText ch \<noteq> [] then childrenText ch
                        else orDefault (sget attrs ''value'') [])
      in if buttonText \<noteq> [] then
           (let (textNode, s4') = createText (hostOf cx) s3;
                s4 = settle (hostOf cx) s4'
            in case loadTextFont (hostOf cx) (aliases cx) style of
                 Inl e \<Rightarrow> Inl e
               | Inr _ \<Rightarrow>
                   (let s5 = updNode textNode (\<lambda>n. n\<lparr>characters := buttonText\<rparr>) s4;
                        s6 = applyTextStyle textNode style s5;
                        s7 = appendChild frame textNode s6
                    in Inr (appendWithMargin (hostOf cx) parent' frame style s7)))
         else Inr (appendWithMargin (hostOf cx) parent' frame style s3))"

text \<open>
  \<^verbatim>\<open>
  function renderImageElement(el, parent, nodeId) {
    const rect = figma.createRectangle();
    rect.resize(200, 120);
    rect.name = el.attrs?.alt ? `img: ${el.attrs.alt}` : 'image';
    const width = parsePx(el.style['width']);
    const height = parsePx(el.style['height']);
    if (width || height) rect.resize(width ?? rect.width, height ?? rect.height);
    applyBorder(rect, el.style);
    applyBoxShadow(rect, el.style);
    const opacity = parseNumber(el.style['opacity']);
    if (opacity !== undefined) rect.opacity = Math.max(0, Math.min(1, opacity));
    appendWithMargin(parent, rect, el.style, opts);
    registerNodeRef(nodeId, rect);
    created++;
    scheduleImageFill(rect, el.attrs?.src, pendingFills, el.style);
  }
  \<close>
\<close>

definition renderImageElement :: "ctx \<Rightarrow> style \<Rightarrow> style \<Rightarrow> nat \<Rightarrow> scene \<Rightarrow> scene" where
  "renderImageElement cx attrs style parent' s =
     (let (rect, s1) = createRectangle (hostOf cx) s;
          s2 = resize rect 200 120 s1;
          s3 = updNode rect
                 (\<lambda>n. n\<lparr>name := (if truthy (sget attrs ''alt'')
                                  then ''img: '' @ the (sget attrs ''alt'') else ''image'')\<rparr>) s2;
          width' = parsePx (sget style ''width'');
          height' = parsePx (sget style ''height'');
          s4 = (if truthyNum width' \<or> truthyNum height'
                then resize rect (case width' of Some w \<Rightarrow> w | None \<Rightarrow> width (nodes s3 rect))
                       (case height' of Some v \<Rightarrow> v | None \<Rightarrow> height (nodes s3 rect)) s3
                else s3);
          s5 = appendWithMargin (hostOf cx) parent' rect style s4
      in scheduleImageFill rect (sget attrs ''src'') style s5)"

text \<open>
  \<^verbatim>\<open>
  async function renderGenericFrame(el, parent, nodeId) {
    const frame = figma.createFrame();
    frame.name = el.attrs?.id ? el.attrs.id : el.tag;
    applyFrameBoxStyle(frame, el.style, { autoLayout: !!opts.autoLayout }, pendingFills);
    appendWithMargin(parent, frame, el.style, opts);
    const explicitWidth = parsePx(el.style['width']);
    const explicitHeight = parsePx(el.style['height']) ?? parsePx(el.style['min-height']);
    if (parent.layoutMode !== 'NONE') {
      if (explicitWidth !== undefined) {
        frame.layoutSizingHorizontal = 'FIXED';
        frame.resize(explicitWidth, frame.height);
      } else {
        const display = (el.style['display'] || '').toLowerCase();
        if (display === 'block' || display === 'flex' || display === 'grid' || display === '') {
          frame.layoutSizingHorizontal = 'FILL';
        } else {
          frame.layoutSizingHorizontal = 'HUG';
        }
      }
      if (explicitHeight !== undefined) {
        frame.layoutSizingVertical = 'FIXED';
        frame.resize(frame.width, explicitHeight);
      } else {
        frame.layoutSizingVertical = 'HUG';
      }
    }
    registerNodeRef(nodeId, frame);
    created++;
    await renderNodes(el.children || [], frame, el.style);
  }
  \<close>
  \<open>genericFrame\<close> is the function up to the recursive call; it returns the frame.
\<close>

definition genericFrame ::
  "ctx \<Rightarrow> string \<Rightarrow> style \<Rightarrow> style \<Rightarrow> nat \<Rightarrow> scene \<Rightarrow> nat \<times> scene" where
  "genericFrame cx tag attrs style parent' s =
     (let (frame, s1) = createFrame (hostOf cx) s;
          s2 = updNode frame
                 (\<lambda>n. n\<lparr>name := (if truthy (sget attrs ''id'') then the (sget attrs ''id'')
                                  else tag)\<rparr>) s1;
          s3 = applyFrameBoxStyle (hostOf cx) frame style (optAutoLayout cx) s2;
          s4 = appendWithMargin (hostOf cx) parent' frame style s3;
          explicitWidth = parsePx (sget style ''width'');
          explicitHeight = orElse (parsePx (sget style ''height''))
                                  (parsePx (sget style ''min-height''))
      in if layoutMode (nodes s4 parent') \<noteq> NONE then
           (let display = toLowerCase (orDefault (sget style ''display'') []);
                s5 = (case explicitWidth of
                        Some w \<Rightarrow>
                          resize frame w (height (nodes s4 frame))
                            (updNode frame (\<lambda>n. n\<lparr>layoutSizingHorizontal := SizeFIXED\<rparr>) s4)
                      | None \<Rightarrow>
                          if display = ''block'' \<or> display = ''flex'' \<or> display = ''grid''
                             \<or> display = []
                          then updNode frame (\<lambda>n. n\<lparr>layoutSizingHorizontal := SizeFILL\<rparr>) s4
                          else updNode frame (\<lambda>n. n\<lparr>layoutSizingHorizontal := SizeHUG\<rparr>) s4);
                s6 = (case explicitHeight of
                        Some v \<Rightarrow>
                          resize frame (width (nodes s5 frame)) v
                            (updNode frame (\<lambda>n. n\<lparr>layoutSizingVertical := SizeFIXED\<rparr>) s5)
                      | None \<Rightarrow> updNode frame (\<lambda>n. n\<lparr>layoutSizingVertical := SizeHUG\<rparr>) s5)
            in (frame, s6))
         else (frame, s4))"

text \<open>
  \<^verbatim>\<open>renderSvgElement\<close>: the markup is rebuilt from the element and handed to
  \<^verbatim>\<open>figma.createNodeFromSvg\<close>, which returns a frame or throws; both are the host's
  \<open>svgFrame\<close>. The frame is named, resized when a width and a height are known, and
  appended; when the host throws, a placeholder frame of 24 by 24 with a grey fill is
  appended instead.
  \<^verbatim>\<open>
  try {
    const svgNode = figma.createNodeFromSvg(svgString);
    svgNode.name = 'icon';
    const width = parsePx(el.style['width']) || parsePx(el.attrs?.width + 'px');
    const height = parsePx(el.style['height']) || parsePx(el.attrs?.height + 'px');
    if (width && height) { svgNode.resize(width, height); }
    appendWithMargin(parent, svgNode, el.style, opts);
    ...
  } catch (error) {
    const placeholder = figma.createFrame();
    placeholder.name = 'svg-error';
    placeholder.resize(24, 24);
    placeholder.fills = [{ type: 'SOLID', color: { r: 0.9, g: 0.9, b: 0.9 } }];
    appendWithMargin(parent, placeholder, el.style, opts);
    ...
  }
  \<close>
\<close>

definition orNum :: "rat option \<Rightarrow> rat option \<Rightarrow> rat option" where
  "orNum x y = (if truthyNum x then x else y)"

definition attrPx :: "style \<Rightarrow> string \<Rightarrow> rat option" where
  "attrPx attrs key =
     parsePx (Some ((case sget attrs key of Some v \<Rightarrow> v | None \<Rightarrow> ''undefined'') @ ''px''))"

definition renderSvgElement :: "ctx \<Rightarrow> JsonNode \<Rightarrow> style \<Rightarrow> style \<Rightarrow> nat \<Rightarrow> scene \<Rightarrow> scene" where
  "renderSvgElement cx el attrs style parent' s =
     (case svgFrame (hostOf cx) el of
        Some svg \<Rightarrow>
          (let (svgNode, s1) = createNode FRAME svg s;
               s2 = updNode svgNode (\<lambda>n. n\<lparr>name := ''icon''\<rparr>) s1;
               width' = orNum (parsePx (sget style ''width'')) (attrPx attrs ''width'');
               height' = orNum (parsePx (sget style ''height'')) (attrPx attrs ''height'');
               s3 = (if truthyNum width' \<and> truthyNum height'
                     then resize svgNode (the width') (the height') s2 else s2)
           in appendWithMargin (hostOf cx) parent' svgNode style s3)
      | None \<Rightarrow>
          (let (placeholder, s1) = createFrame (hostOf cx) s;
               s2 = updNode placeholder (\<lambda>n. n\<lparr>name := ''svg-error''\<rparr>) s1;
               s3 = resize placeholder 24 24 s2;
               s4 = updNode placeholder
                      (\<lambda>n. n\<lparr>fills := [SolidPaint (Num (9 / 10)) (Num (9 / 10)) (Num (9 / 10))
                                                    (Num 1)]\<rparr>) s3
           in appendWithMargin (hostOf cx) parent' placeholder style s4))"

text \<open>
  \<^verbatim>\<open>renderElement\<close> dispatches on the tag in lower case, in this order: headings, inline
  text, list containers, images, buttons, the root of a vector, the other vector tags
  (skipped), and the generic frame. \<^verbatim>\<open>renderNodes\<close> renders a list of nodes in order
  into a parent: a text node with the style inherited from the parent element, an element
  by \<^verbatim>\<open>renderElement\<close>. It awaits before each node (\<^verbatim>\<open>maybeYield\<close>) and, being
  awaited itself, once more when it returns.
  \<^verbatim>\<open>
  async function renderNodes(nodes: JsonNode[], parent: FrameNode, parentStyle?) {
    for (const node of nodes) {
      await maybeYield();
      if ((node as any).kind === 'text') {
        await renderPlainTextNode(node, parent, parentStyle);
      } else {
        await renderElement(node as ElementNode, parent);
      }
    }
  }
  \<close>
\<close>

fun renderNode :: "ctx \<Rightarrow> JsonNode \<Rightarrow> nat \<Rightarrow> style option \<Rightarrow> scene \<Rightarrow> error + scene"
  and renderNodes :: "ctx \<Rightarrow> JsonNode list \<Rightarrow> nat \<Rightarrow> style option \<Rightarrow> scene \<Rightarrow> error + scene"
where
  "renderNode cx (TextNode t) parent' parentStyle s =
     renderPlainTextNode cx t parent' parentStyle s"
| "renderNode cx (ElementNode tag0 attrs style ch) parent' parentStyle s =
     (let tag = toLowerCase tag0 in
      if tag \<in> set HEADING_TAGS then renderHeading cx style ch parent' tag s
      else if tag \<in> set INLINE_TEXT_TAGS then renderInlineText cx attrs style ch parent' tag s
      else if tag \<in> set LIST_CONTAINER_TAGS then
        (case listContainerFrame cx tag0 style parent' s of
           (frame, s1) \<Rightarrow> renderNodes cx ch frame (Some style) s1)
      else if tag = ''img'' then Inr (renderImageElement cx attrs style parent' s)
      else if tag \<in> set BUTTON_TAGS then renderButtonElement cx tag0 attrs style ch parent' s
      else if tag = ''svg'' then
        Inr (renderSvgElement cx (ElementNode tag0 attrs style ch) attrs style parent' s)
      else if tag \<in> set SVG_TAGS then Inr s
      else (case genericFrame cx tag0 attrs style parent' s of
              (frame, s1) \<Rightarrow> renderNodes cx ch frame (Some style) s1))"
| "renderNodes cx [] parent' parentStyle s = Inr (settle (hostOf cx) s)"
| "renderNodes cx (n # ns) parent' parentStyle s =
     (case renderNode cx n parent' parentStyle (settle (hostOf cx) s) of
        Inl e \<Rightarrow> Inl e
      | Inr s1 \<Rightarrow> renderNodes cx ns parent' parentStyle s1)"

text \<open>
  \<^verbatim>\<open>
  function createRootFrame(viewport?: { width: number; height: number }): FrameNode {
    const frame = figma.createFrame();
    frame.name = 'Imported HTML';
    frame.layoutMode = 'VERTICAL';
    frame.primaryAxisSizingMode = 'AUTO';
    frame.counterAxisSizingMode = 'FIXED';
    const frameWidth = viewport?.width || 1920;
    frame.resize(frameWidth, 100);
    frame.paddingTop = 32; frame.paddingRight = 40;
    frame.paddingBottom = 32; frame.paddingLeft = 40;
    frame.itemSpacing = 32;
    frame.fills = [{ type: 'SOLID', color: { r: 0.957, g: 0.969, b: 0.996 } }];
    frame.clipsContent = false;
    figma.currentPage.appendChild(frame);
    return frame;
  }
  \<close>
\<close>

definition createRootFrame :: "host \<Rightarrow> rat option \<Rightarrow> scene \<Rightarrow> nat \<times> scene" where
  "createRootFrame h viewportWidth s =
     (let (frame, s1) = createFrame h s;
          s2 = updNode frame
                 (\<lambda>n. n\<lparr>name := ''Imported HTML'', layoutMode := VERTICAL,
                         primaryAxisSizingMode := AxisAUTO,
                         counterAxisSizingMode := AxisFIXED\<rparr>) s1;
          s3 = resize frame (if truthyNum viewportWidth then the viewportWidth else 1920) 100 s2;
          s4 = updNode frame
                 (\<lambda>n. n\<lparr>paddingTop := 32, paddingRight := 40, paddingBottom := 32,
                         paddingLeft := 40, itemSpacing := 32,
                         fills := [SolidPaint (Num (957 / 1000)) (Num (969 / 1000))
                                              (Num (996 / 1000)) (Num 1)],
                         clipsContent := False\<rparr>) s3
      in (frame, s4\<lparr>page := page s4 @ [frame]\<rparr>))"

text \<open>
  The part of \<^verbatim>\<open>processImportMessage\<close> that builds the scene: the root frame, a new
  empty list of pending fills, the walk of the payload into the root frame, and the
  barrier on the pending fills. \<open>buildScene\<close> stops before the barrier.
  \<^verbatim>\<open>
  const frame = createRootFrame(opts.viewport);
  const idToNode = new Map<string, SceneNode>();
  const pendingFills: Promise<void>[] = [];
  const renderer = createRendererContext(opts, idToNode, pendingFills);
  await renderer.renderNodes(msg.payload || [], frame);
  await renderer.waitForPending();
  \<close>
\<close>

definition buildScene :: "ctx \<Rightarrow> rat option \<Rightarrow> JsonNode list \<Rightarrow> scene \<Rightarrow> error + scene" where
  "buildScene cx viewportWidth payload s =
     (case createRootFrame (hostOf cx) viewportWidth s of
        (frame, s1) \<Rightarrow> renderNodes cx payload frame None (s1\<lparr>pending := []\<rparr>))"

definition importScene :: "ctx \<Rightarrow> rat option \<Rightarrow> JsonNode list \<Rightarrow> scene \<Rightarrow> error + scene" where
  "importScene cx viewportWidth payload s =
     (case buildScene cx viewportWidth payload s of
        Inl e \<Rightarrow> Inl e
      | Inr s1 \<Rightarrow> Inr (waitForPending (hostOf cx) s1))"

section \<open>Shared styles from the document\<close>

text \<open>
  What \<^verbatim>\<open>createLocalStylesFromDocument\<close> reads and writes of a node of the page: its
  type, its font name, font size and fills (each of them \<open>None\<close> when the host returns
  \<^verbatim>\<open>figma.mixed\<close>), and the ids of its text style and of its fill style. A text style
  has the font size it was created with and the name \<^verbatim>\<open>Text/\<close> followed by that number;
  a paint style has its name and its paints. The id of a style is its position in the
  list of the styles of the document, in the order of their creation.
\<close>

record pageNode =
  kind :: nodeType
  fontName :: "FontName option"
  fontSize :: "rat option"
  nodeFills :: "paint list option"
  textStyleId :: "nat option"
  fillStyleId :: "nat option"

datatype TextStyle = TextStyle (textStyleFontSize: rat)

datatype PaintStyle = PaintStyle (paintStyleName: string) (paintStylePaints: "paint list")

record document =
  findAll :: "pageNode list"
  localTextStyles :: "TextStyle list"
  localPaintStyles :: "PaintStyle list"

text \<open>
  The host of this pass: \<^verbatim>\<open>figma.loadFontAsync\<close>, \<^verbatim>\<open>node.setTextStyleIdAsync\<close> and
  \<^verbatim>\<open>node.setFillStyleIdAsync\<close> return or throw; the code catches each of them.
\<close>

record styleHost =
  loadFontAsync :: "FontName \<Rightarrow> bool"
  setTextStyleIdAsync :: "nat \<Rightarrow> bool"
  setFillStyleIdAsync :: "nat \<Rightarrow> bool"

text \<open>
  The state of the loop: the two maps of the function, local to one call, and the styles
  of the document.
\<close>

record styleState =
  sizeSet :: "(rat \<times> nat) list"
  colorSet :: "(string \<times> nat) list"
  textStyles :: "TextStyle list"
  paintStyles :: "PaintStyle list"

fun isSolid :: "paint \<Rightarrow> bool" where
  "isSolid (SolidPaint r g b a) = True"
| "isSolid _ = False"

fun colorOf :: "paint \<Rightarrow> RGB" where
  "colorOf (SolidPaint r g b a) = RGB r g b"
| "colorOf _ = RGB NaN NaN NaN"

text \<open>
  \<^verbatim>\<open>
  async function createLocalStylesFromDocument(): Promise<void> {
    const colorSet = new Map<string, PaintStyle>();
    const sizeSet = new Map<number, TextStyle>();
    for (const node of figma.currentPage.findAll()) {
      if (node.type !== 'TEXT') continue;
      try {
        const fontName = node.fontName;
        if (fontName && typeof fontName === 'object' && 'family' in fontName) {
          await figma.loadFontAsync(fontName as FontName);
        }
      } catch { continue; }
      if (typeof node.fontSize === 'number' && !sizeSet.has(node.fontSize)) {
        const textStyle = figma.createTextStyle();
        textStyle.name = `Text/${node.fontSize}`;
        textStyle.fontSize = node.fontSize;
        sizeSet.set(node.fontSize, textStyle);
        try { await node.setTextStyleIdAsync(textStyle.id); } catch { }
      }
      const fills = Array.isArray(node.fills) ? node.fills : [];
      const solid = fills.find((paint): paint is SolidPaint => paint.type === 'SOLID');
      if (!solid) continue;
      const colorKey = hexOf(solid.color);
      let paintStyle = colorSet.get(colorKey);
      if (!paintStyle) {
        paintStyle = figma.createPaintStyle();
        paintStyle.name = `Color/${colorKey}`;
        paintStyle.paints = [{ type: 'SOLID', color: solid.color }];
        colorSet.set(colorKey, paintStyle);
      }
      try { await node.setFillStyleIdAsync(paintStyle.id); } catch { }
    }
  }
  \<close>
  \<open>styleSize\<close> is the part of the body of the loop on the font size, \<open>styleColor\<close> the
  part on the fills, \<open>styleStep\<close> the body.
\<close>

definition styleSize :: "styleHost \<Rightarrow> pageNode \<Rightarrow> styleState \<Rightarrow> pageNode \<times> styleState" where
  "styleSize h n st =
     (case fontSize n of
        None \<Rightarrow> (n, st)
      | Some sz \<Rightarrow>
          if map_of (sizeSet st) sz \<noteq> None then (n, st)
          else let textStyle = length (textStyles st)
               in (if setTextStyleIdAsync h textStyle then n\<lparr>textStyleId := Some textStyle\<rparr>
                   else n,
                   st\<lparr>textStyles := textStyles st @ [TextStyle sz],
                      sizeSet := sizeSet st @ [(sz, textStyle)]\<rparr>))"

definition styleColor :: "styleHost \<Rightarrow> pageNode \<Rightarrow> styleState \<Rightarrow> pageNode \<times> styleState" where
  "styleColor h n st =
     (let fills' = (case nodeFills n of Some fs \<Rightarrow> fs | None \<Rightarrow> []) in
      case find isSolid fills' of
        None \<Rightarrow> (n, st)
      | Some solid \<Rightarrow>
          let colorKey = hexOf (colorOf solid);
              (paintStyle, st1) =
                (case map_of (colorSet st) colorKey of
                   Some i \<Rightarrow> (i, st)
                 | None \<Rightarrow>
                     (length (paintStyles st),
                      st\<lparr>paintStyles := paintStyles st @
                            [PaintStyle (''Color/'' @ colorKey)
                               [case colorOf solid of RGB r g b \<Rightarrow> SolidPaint r g b (Num 1)]],
                         colorSet := colorSet st @ [(colorKey, length (paintStyles st))]\<rparr>))
          in (if setFillStyleIdAsync h paintStyle then n\<lparr>fillStyleId := Some paintStyle\<rparr>
              else n,
              st1))"

definition styleStep :: "styleHost \<Rightarrow> pageNode \<Rightarrow> styleState \<Rightarrow> pageNode \<times> styleState" where
  "styleStep h n st =
     (if kind n \<noteq> TEXT then (n, st)
      else if (case fontName n of Some f \<Rightarrow> \<not> loadFontAsync h f | None \<Rightarrow> False) then (n, st)
      else case styleSize h n st of (n1, st1) \<Rightarrow> styleColor h n1 st1)"

fun stylesLoop :: "styleHost \<Rightarrow> pageNode list \<Rightarrow> styleState \<Rightarrow> pageNode list \<times> styleState" where
  "stylesLoop h [] st = ([], st)"
| "stylesLoop h (n # ns) st =
     (case styleStep h n st of
        (n', st1) \<Rightarrow> (case stylesLoop h ns st1 of (ns', st2) \<Rightarrow> (n' # ns', st2)))"

definition createLocalStylesFromDocument :: "styleHost \<Rightarrow> document \<Rightarrow> document" where
  "createLocalStylesFromDocument h d =
     (case stylesLoop h (findAll d)
             \<lparr>sizeSet = [], colorSet = [], textStyles = localTextStyles d,
              paintStyles = localPaintStyles d\<rparr> of
        (ns, st) \<Rightarrow>
          \<lparr>findAll = ns, localTextStyles = textStyles st, localPaintStyles = paintStyles st\<rparr>)"

section \<open>Inputs and scenarios of the properties\<close>



text \<open>
  A host with the defaults that the plugin API documents for a new frame (100 by 100, one
  white solid fill, content clipped, no auto layout), a page with no node yet, and a page
  that holds one frame.
\<close>

definition documentedFrame :: node where
  "documentedFrame =
     \<lparr>ntype = FRAME, name = ''Frame'', parent = None, children = [], layoutMode = NONE,
      primaryAxisSizingMode = AxisAUTO, counterAxisSizingMode = AxisFIXED,
      layoutSizingHorizontal = SizeFIXED, layoutSizingVertical = SizeFIXED,
      paddingTop = 0, paddingRight = 0, paddingBottom = 0, paddingLeft = 0, itemSpacing = 0,
      primaryAxisAlignItems = AlignMIN, counterAxisAlignItems = AlignMIN,
      fills = [SolidPaint (Num 1) (Num 1) (Num 1) (Num 1)], clipsContent = True,
      width = 100, height = 100, characters = []\<rparr>"

definition documentedHost :: host where
  "documentedHost =
     \<lparr>newFrame = documentedFrame,
      newText = documentedFrame\<lparr>ntype := TEXT, name := ''Text'',
                  fills := [SolidPaint (Num 0) (Num 0) (Num 0) (Num 1)],
                  clipsContent := False, width := 0, height := 0\<rparr>,
      newRectangle = documentedFrame\<lparr>ntype := RECTANGLE, name := ''Rectangle'',
                  fills := [SolidPaint (Num (217 / 255)) (Num (217 / 255)) (Num (217 / 255))
                              (Num 1)],
                  clipsContent := False\<rparr>,
      loadFont = (\<lambda>f. fst f = ''Inter''),
      gradientParses = (\<lambda>_. True),
      imagePaintOk = (\<lambda>_. False),
      fetched = (\<lambda>_ _. False),
      svgFrame = (\<lambda>_. None)\<rparr>"



definition gridStyle10 :: style where
  "gridStyle10 =
     [(''display'', ''grid''), (''grid-template-columns'', ''100px 100px 100px''),
      (''gap'', ''10px'')]"

text \<open>An element with a margin and no children: \<^verbatim>\<open><div style="margin:10px"></div>\<close>.\<close>

definition marginStyle :: style where
  "marginStyle = [(''margin'', ''10px'')]"

definition marginExample :: "JsonNode list" where
  "marginExample = [ElementNode ''div'' [] marginStyle []]"




text \<open>
  A page with one text node, of size 16 and with a black fill, on a host where the three
  calls of the pass return.
\<close>

definition oneTextDocument :: document where
  "oneTextDocument =
     \<lparr>findAll = [\<lparr>kind = TEXT, fontName = Some (''Inter'', ''Regular''), fontSize = Some 16,
                  nodeFills = Some [SolidPaint (Num 0) (Num 0) (Num 0) (Num 1)],
                  textStyleId = None, fillStyleId = None\<rparr>],
      localTextStyles = [], localPaintStyles = []\<rparr>"

definition permissiveStyleHost :: styleHost where
  "permissiveStyleHost =
     \<lparr>loadFontAsync = (\<lambda>_. True), setTextStyleIdAsync = (\<lambda>_. True),
      setFillStyleIdAsync = (\<lambda>_. True)\<rparr>"




text \<open>
  Definitions used in the proofs about the builder. Two scenes agree on a node when the
  node is the same but for its fills (which a pending task may assign at any await) and
  has the same entry in \<^verbatim>\<open>gridMetaMap\<close>. \<open>above n s s'\<close>: from \<open>s\<close> to \<open>s'\<close> nodes were
  created and the scenes agree on the nodes below \<open>n\<close>. \<open>frozen n p s s'\<close>: the same but
  for the node \<open>p\<close>, which keeps its type and its parent. \<open>rowsAbove n p s\<close>: the rows of
  the grid frame \<open>p\<close>, if it is one, are not below \<open>n\<close>.
\<close>

definition core :: "node \<Rightarrow> node" where
  "core n = n\<lparr>fills := []\<rparr>"

definition above :: "nat \<Rightarrow> scene \<Rightarrow> scene \<Rightarrow> bool" where
  "above n s s' =
     (count s \<le> count s'
      \<and> (\<forall>i<n. gridMetaMap s' i = gridMetaMap s i \<and> core (nodes s' i) = core (nodes s i)))"

definition frozen :: "nat \<Rightarrow> nat \<Rightarrow> scene \<Rightarrow> scene \<Rightarrow> bool" where
  "frozen n p s s' =
     (count s \<le> count s'
      \<and> (\<forall>i<n. i \<noteq> p \<longrightarrow>
            gridMetaMap s' i = gridMetaMap s i \<and> core (nodes s' i) = core (nodes s i))
      \<and> ntype (nodes s' p) = ntype (nodes s p) \<and> parent (nodes s' p) = parent (nodes s p))"

definition rowsAbove :: "nat \<Rightarrow> nat \<Rightarrow> scene \<Rightarrow> bool" where
  "rowsAbove n p s = (\<forall>m i r. gridMetaMap s p = Some m \<longrightarrow> rows m i = Some r \<longrightarrow> n \<le> r)"

text \<open>
  The children that \<^verbatim>\<open>renderElement\<close> skips (the tags of the parts of a vector outside
  an \<^verbatim>\<open>svg\<close> element; a text node is never skipped), and the type of the node that is
  appended to the parent for a child that is not skipped.
\<close>

definition skipped :: "JsonNode \<Rightarrow> bool" where
  "skipped nd =
     (case nd of
        TextNode t \<Rightarrow> False
      | ElementNode tag0 attrs st ch \<Rightarrow>
          (let tag = toLowerCase tag0
           in tag \<notin> set HEADING_TAGS \<and> tag \<notin> set INLINE_TEXT_TAGS
              \<and> tag \<notin> set LIST_CONTAINER_TAGS \<and> tag \<noteq> ''img'' \<and> tag \<notin> set BUTTON_TAGS
              \<and> tag \<noteq> ''svg'' \<and> tag \<in> set SVG_TAGS))"

definition kindOf :: "JsonNode \<Rightarrow> nodeType" where
  "kindOf nd =
     (case nd of
        TextNode t \<Rightarrow> TEXT
      | ElementNode tag0 attrs st ch \<Rightarrow>
          (let tag = toLowerCase tag0
           in if tag \<in> set HEADING_TAGS \<or> tag \<in> set INLINE_TEXT_TAGS then TEXT
              else if tag = ''img'' then RECTANGLE
              else FRAME))"

text \<open>
  The elements that are rendered as a frame into which their children are rendered: the
  list containers and the generic frames.
\<close>

definition isContainer :: "string \<Rightarrow> bool" where
  "isContainer tag0 =
     (let tag = toLowerCase tag0
      in tag \<notin> set HEADING_TAGS \<and> tag \<notin> set INLINE_TEXT_TAGS
         \<and> (tag \<in> set LIST_CONTAINER_TAGS
            \<or> tag \<noteq> ''img'' \<and> tag \<notin> set BUTTON_TAGS \<and> tag \<noteq> ''svg'' \<and> tag \<notin> set SVG_TAGS))"

text \<open>
  The node of a child after it has been appended to a row of a grid frame; what every
  row frame of a grid satisfies; and the state of a grid frame \<open>f\<close> with three fixed
  columns, of total width \<open>T\<close> and rows of width \<open>W\<close>, into which the children \<open>cs\<close> (of
  the types \<open>tys\<close>, in the order of their creation) have been appended, the rows being
  \<open>rs\<close>: row \<open>i\<close> holds the children \<open>3 * i\<close>, \<open>3 * i + 1\<close>, \<open>3 * i + 2\<close>, as far as they
  exist.
\<close>

definition gridKid :: "bool \<Rightarrow> node \<Rightarrow> rat \<Rightarrow> nat \<Rightarrow> node" where
  "gridKid fits d w row =
     (if fits \<and> ntype d = FRAME
      then d\<lparr>layoutSizingHorizontal := SizeFIXED, layoutSizingVertical := SizeHUG,
             width := w, height := height d, parent := Some row\<rparr>
      else d\<lparr>parent := Some row\<rparr>)"

definition rowOk :: "nat \<Rightarrow> rat \<Rightarrow> rat \<Rightarrow> node \<Rightarrow> bool" where
  "rowOk f W g n =
     (ntype n = FRAME \<and> layoutMode n = HORIZONTAL \<and> width n = W \<and> itemSpacing n = g
      \<and> parent n = Some f \<and> clipsContent n = False)"

definition gridInv ::
  "nat \<Rightarrow> rat \<Rightarrow> rat \<Rightarrow> rat \<Rightarrow> scene \<Rightarrow> nat list \<Rightarrow> nat list \<Rightarrow> nodeType list \<Rightarrow> bool" where
  "gridInv f T W g s cs rs tys =
     (f < count s \<and> ntype (nodes s f) = FRAME \<and> children (nodes s f) = rs
      \<and> (\<exists>meta. gridMetaMap s f = Some meta \<and> columns meta = 3 \<and> totalWidth meta = Some T
             \<and> columnGap meta = g \<and> columnWidths meta = [100, 100, 100]
             \<and> childCount meta = length cs
             \<and> (\<forall>i. rows meta i = (if i < length rs then Some (rs ! i) else None)))
      \<and> length rs = (length cs + 2) div 3
      \<and> length tys = length cs
      \<and> sorted_wrt (<) cs
      \<and> (\<forall>i<length rs. rs ! i < count s \<and> rs ! i \<noteq> f \<and> rowOk f W g (nodes s (rs ! i))
             \<and> children (nodes s (rs ! i)) = take 3 (drop (3 * i) cs))
      \<and> (\<forall>j<length cs. cs ! j < count s \<and> cs ! j \<noteq> f \<and> cs ! j \<notin> set rs
             \<and> ntype (nodes s (cs ! j)) = tys ! j
             \<and> parent (nodes s (cs ! j)) = Some (rs ! (j div 3))))"

text \<open>
  The text nodes that the loop does not skip, their font sizes and the colours of their
  first solid fills, in the order of the page; and the first occurrences in a list, by
  a key, of the elements whose key is not in a given set.
\<close>

definition styled :: "styleHost \<Rightarrow> pageNode \<Rightarrow> bool" where
  "styled h n =
     (kind n = TEXT \<and> (case fontName n of Some f \<Rightarrow> loadFontAsync h f | None \<Rightarrow> True))"

definition sizeOf :: "styleHost \<Rightarrow> pageNode \<Rightarrow> rat list" where
  "sizeOf h n = (if styled h n then (case fontSize n of Some sz \<Rightarrow> [sz] | None \<Rightarrow> []) else [])"

definition solidOf :: "styleHost \<Rightarrow> pageNode \<Rightarrow> RGB list" where
  "solidOf h n =
     (if styled h n
      then (case find isSolid (case nodeFills n of Some fs \<Rightarrow> fs | None \<Rightarrow> []) of
              Some p \<Rightarrow> [colorOf p] | None \<Rightarrow> [])
      else [])"

definition fontSizes :: "styleHost \<Rightarrow> pageNode list \<Rightarrow> rat list" where
  "fontSizes h ns = concat (map (sizeOf h) ns)"

definition solidColors :: "styleHost \<Rightarrow> pageNode list \<Rightarrow> RGB list" where
  "solidColors h ns = concat (map (solidOf h) ns)"

fun firstsBy :: "('a \<Rightarrow> 'k) \<Rightarrow> 'k set \<Rightarrow> 'a list \<Rightarrow> 'a list" where
  "firstsBy k S [] = []"
| "firstsBy k S (x # xs) =
     (if k x \<in> S then firstsBy k S xs else x # firstsBy k (insert (k x) S) xs)"

definition paintStyleOf :: "RGB \<Rightarrow> PaintStyle" where
  "paintStyleOf c =
     PaintStyle (''Color/'' @ hexOf c) [case c of RGB r g b \<Rightarrow> SolidPaint r g b (Num 1)]"

subsection \<open>Facts about the example scenes\<close>


section \<open>Properties of the length parser\<close>

lemma not_digit_chars [simp]:
  "\<not> isDigit CHR ''-''" "\<not> isDigit CHR ''.''" "\<not> isDigit CHR ''p''"
  by (simp_all add: isDigit_def)

lemma takeWhile_all: "list_all P xs \<Longrightarrow> takeWhile P (xs @ ys) = xs @ takeWhile P ys"
  by (induction xs) auto

lemma dropWhile_all: "list_all P xs \<Longrightarrow> dropWhile P (xs @ ys) = dropWhile P ys"
  by (induction xs) auto

lemma list_all_takeWhile: "list_all P (takeWhile P xs)"
  by (induction xs) auto

lemma pxAt_sound:
  assumes "pxAt s = Some cap"
  shows "\<exists>post. s = cap @ ''px'' @ post \<and> isPxNumber cap"
proof -
  define sg where "sg = (if prefix ''-'' s then ''-'' else [])"
  define r0 where "r0 = drop (length sg) s"
  define ds where "ds = takeWhile isDigit r0"
  define r1 where "r1 = dropWhile isDigit r0"
  have s: "s = sg @ r0"
    unfolding r0_def sg_def by (auto simp: prefix_def)
  have r0: "r0 = ds @ r1" unfolding ds_def r1_def by simp
  have dsall: "list_all isDigit ds" unfolding ds_def by (rule list_all_takeWhile)
  from assms have ne: "ds \<noteq> []"
    unfolding pxAt_def Let_def sg_def[symmetric] r0_def[symmetric] ds_def[symmetric]
    by (auto split: if_splits)
  have capr0: "(if prefix ''-'' (sg @ x) then tl (sg @ x) else sg @ x) = x"
    if "x \<noteq> []" "isDigit (hd x)" for x
    using that unfolding sg_def by (cases x) (auto simp: prefix_def)
  have hdds: "isDigit (hd ds)" using ne dsall by (cases ds) auto
  show ?thesis
  proof (cases "prefix ''.'' r1")
    case True
    define fs where "fs = takeWhile isDigit (tl r1)"
    define r3 where "r3 = dropWhile isDigit (tl r1)"
    have r1: "r1 = ''.'' @ fs @ r3"
      using True unfolding fs_def r3_def by (auto simp: prefix_def)
    have fsall: "list_all isDigit fs" unfolding fs_def by (rule list_all_takeWhile)
    from assms True ne have c: "fs \<noteq> []" "prefix ''px'' r3" "cap = sg @ ds @ ''.'' @ fs"
      unfolding pxAt_def Let_def sg_def[symmetric] r0_def[symmetric] ds_def[symmetric]
        r1_def[symmetric] fs_def[symmetric] r3_def[symmetric]
      by (auto split: if_splits)
    from c(2) obtain post where r3: "r3 = ''px'' @ post" by (auto simp: prefix_def)
    have "s = cap @ ''px'' @ post" using s r0 r1 r3 c(3) by simp
    moreover have "isPxNumber cap"
    proof -
      have "(if prefix ''-'' cap then tl cap else cap) = ds @ ''.'' @ fs"
        unfolding c(3) by (rule capr0) (use ne hdds in auto)
      then show ?thesis unfolding isPxNumber_def Let_def
        using dsall fsall ne c(1) by (simp add: takeWhile_all dropWhile_all)
    qed
    ultimately show ?thesis by blast
  next
    case False
    from assms False ne have c: "prefix ''px'' r1" "cap = sg @ ds"
      unfolding pxAt_def Let_def sg_def[symmetric] r0_def[symmetric] ds_def[symmetric]
        r1_def[symmetric]
      by (auto split: if_splits)
    from c(1) obtain post where r1: "r1 = ''px'' @ post" by (auto simp: prefix_def)
    have "s = cap @ ''px'' @ post" using s r0 r1 c(2) by simp
    moreover have "isPxNumber cap"
    proof -
      have "(if prefix ''-'' cap then tl cap else cap) = ds @ []"
        unfolding c(2) using capr0[of ds] ne hdds by simp
      then show ?thesis unfolding isPxNumber_def Let_def
        using dsall ne by (simp add: takeWhile_all dropWhile_all del: append_Nil2)
    qed
    ultimately show ?thesis by blast
  qed
qed

lemma pxAt_complete:
  assumes "isPxNumber cap"
  shows "pxAt (cap @ ''px'' @ post) = Some cap"
proof -
  define sg where "sg = (if prefix ''-'' cap then ''-'' else [])"
  define r0 where "r0 = (if prefix ''-'' cap then tl cap else cap)"
  define ds where "ds = takeWhile isDigit r0"
  define r1 where "r1 = dropWhile isDigit r0"
  have cap: "cap = sg @ r0" unfolding sg_def r0_def by (auto simp: prefix_def)
  have r0: "r0 = ds @ r1" unfolding ds_def r1_def by simp
  have dsall: "list_all isDigit ds" unfolding ds_def by (rule list_all_takeWhile)
  from assms have ne: "ds \<noteq> []"
    and fr: "r1 = [] \<or> (prefix ''.'' r1 \<and> tl r1 \<noteq> [] \<and> list_all isDigit (tl r1))"
    unfolding isPxNumber_def Let_def r0_def[symmetric] ds_def[symmetric] r1_def[symmetric]
    by auto
  have hdds: "isDigit (hd ds)" using ne dsall by (cases ds) auto
  have pm: "prefix ''-'' (cap @ x) = prefix ''-'' cap" for x
    using cap r0 ne hdds unfolding sg_def
    by (cases ds) (auto simp: prefix_def split: if_splits)
  have sg': "(if prefix ''-'' (cap @ ''px'' @ post) then ''-'' else []) = sg"
    unfolding pm sg_def ..
  have dr: "drop (length sg) (cap @ ''px'' @ post) = ds @ r1 @ ''px'' @ post"
    using cap r0 by simp
  from fr show ?thesis
  proof
    assume e: "r1 = []"
    show ?thesis unfolding pxAt_def sg' Let_def dr
      using dsall ne e cap r0 by (simp add: takeWhile_all dropWhile_all)
  next
    assume a: "prefix ''.'' r1 \<and> tl r1 \<noteq> [] \<and> list_all isDigit (tl r1)"
    then obtain fs where r1: "r1 = ''.'' @ fs" and fs: "fs \<noteq> []" "list_all isDigit fs"
      by (cases r1) (auto simp: prefix_def)
    show ?thesis unfolding pxAt_def sg' Let_def dr
      using dsall ne r1 fs cap r0 by (simp add: takeWhile_all dropWhile_all)
  qed
qed

lemma pxExec_sound:
  "pxExec s = Some cap \<Longrightarrow>
     \<exists>pre post. s = pre @ cap @ ''px'' @ post \<and> isPxNumber cap \<and>
        (\<forall>i<length pre. pxAt (drop i s) = None)"
proof (induction s)
  case Nil
  then show ?case by simp
next
  case (Cons c cs)
  show ?case
  proof (cases "pxAt (c # cs)")
    case None
    with Cons.prems have "pxExec cs = Some cap" by simp
    from Cons.IH[OF this] obtain pre post where
      h: "cs = pre @ cap @ ''px'' @ post" "isPxNumber cap"
         "\<forall>i<length pre. pxAt (drop i cs) = None"
      by blast
    have "\<forall>i<length (c # pre). pxAt (drop i (c # cs)) = None"
    proof (intro allI impI)
      fix i assume "i < length (c # pre)"
      then show "pxAt (drop i (c # cs)) = None"
        using None h(3) by (cases i) auto
    qed
    moreover have "c # cs = (c # pre) @ cap @ ''px'' @ post" using h(1) by simp
    ultimately show ?thesis using h(2) by blast
  next
    case (Some m)
    with Cons.prems have "m = cap" by simp
    with Some pxAt_sound[of "c # cs" cap] obtain post where
      "c # cs = cap @ ''px'' @ post" "isPxNumber cap" by blast
    then have "c # cs = [] @ cap @ ''px'' @ post \<and> isPxNumber cap \<and>
        (\<forall>i<length ([]::string). pxAt (drop i (c # cs)) = None)" by simp
    then show ?thesis by blast
  qed
qed

lemma pxExec_complete:
  "isPxNumber cap \<Longrightarrow> pxExec (pre @ cap @ ''px'' @ post) \<noteq> None"
proof (induction pre)
  case Nil
  obtain c cs where ccs: "cap @ ''px'' @ post = c # cs" by (cases cap) auto
  have "pxAt (c # cs) = Some cap" unfolding ccs[symmetric] by (rule pxAt_complete[OF Nil])
  then show ?case using ccs by simp
next
  case (Cons a pre)
  then show ?case by (cases "pxAt (a # pre @ cap @ ''px'' @ post)") auto
qed

lemma isPxNumber_ne: "isPxNumber cap \<Longrightarrow> cap \<noteq> [] \<and> \<not> isWs (hd cap)"
  unfolding isPxNumber_def Let_def
  by (cases cap) (auto simp: prefix_def isWs_def isDigit_def split: if_splits)

lemma trim_id: "s \<noteq> [] \<Longrightarrow> \<not> isWs (hd s) \<Longrightarrow> \<not> isWs (last s) \<Longrightarrow> trim s = s"
proof -
  assume a: "s \<noteq> []" "\<not> isWs (hd s)" "\<not> isWs (last s)"
  have 1: "dropWhile isWs s = s" using a by (cases s) auto
  have 2: "dropWhile isWs (rev s) = rev s"
    using a by (cases "rev s") (auto simp: last_rev[symmetric] hd_rev)
  show ?thesis unfolding trim_def 1 2 by simp
qed

lemma parsePx_exact:
  assumes "isPxNumber cap"
  shows "parsePx (Some (cap @ ''px'')) = Some (numberOf cap)"
proof -
  from isPxNumber_ne[OF assms] have ne: "cap \<noteq> []" and nw: "\<not> isWs (hd cap)" by auto
  have t: "trim (cap @ ''px'') = cap @ ''px''"
    by (rule trim_id) (use ne nw in \<open>auto simp: isWs_def\<close>)
  obtain c cs where ccs: "cap @ ''px'' = c # cs" using ne by (cases cap) auto
  have "pxAt (cap @ ''px'' @ []) = Some cap" by (rule pxAt_complete[OF assms])
  then have "pxExec (cap @ ''px'') = Some cap" unfolding ccs[symmetric] using ccs
    by (metis append_Nil2 ccs option.simps(5) pxExec.simps(2))
  then show ?thesis unfolding parsePx_def using ne by (simp add: t)
qed

lemmas parsePx_eval =
  parsePx_def trim_def isWs_def pxAt_def isDigit_def numberOf_def decimalVal_def
  digitsVal_def digitVal_def

text \<open>
  Claim C8, as the code has it. The length pattern is not anchored, so \<open>parsePx\<close> does not
  only accept strings that are a number followed by \<^verbatim>\<open>px\<close>: it returns a value exactly
  when the trimmed string contains such a number followed by \<^verbatim>\<open>px\<close> somewhere, and the
  value is that of the leftmost position where the pattern matches. A string with no such
  occurrence (\<^verbatim>\<open>auto\<close>, a length in another unit) and an absent string give absent; a
  string that is exactly a number followed by \<^verbatim>\<open>px\<close> gives that number, and
  \<^verbatim>\<open>16px\<close> gives 16.
\<close>

theorem parsePx_leftmost_occurrence:
  "(parsePx (Some v) = Some x \<longrightarrow>
      (\<exists>pre cap post. trim v = pre @ cap @ ''px'' @ post \<and> isPxNumber cap \<and>
         x = numberOf cap \<and> (\<forall>i<length pre. pxAt (drop i (trim v)) = None)))
   \<and> ((\<exists>pre cap post. trim v = pre @ cap @ ''px'' @ post \<and> isPxNumber cap) \<longrightarrow>
        parsePx (Some v) \<noteq> None)
   \<and> (isPxNumber cap \<longrightarrow> parsePx (Some (cap @ ''px'')) = Some (numberOf cap))
   \<and> parsePx (Some ''16px'') = Some 16
   \<and> parsePx (Some ''auto'') = None
   \<and> parsePx (Some ''2em'') = None
   \<and> parsePx None = None"
proof (intro conjI impI)
  assume a: "parsePx (Some v) = Some x"
  then obtain m where m: "pxExec (trim v) = Some m" "x = numberOf m"
    unfolding parsePx_def by (auto split: if_splits)
  from pxExec_sound[OF m(1)] m(2)
  show "\<exists>pre cap post. trim v = pre @ cap @ ''px'' @ post \<and> isPxNumber cap \<and>
         x = numberOf cap \<and> (\<forall>i<length pre. pxAt (drop i (trim v)) = None)"
    by blast
next
  assume "\<exists>pre cap post. trim v = pre @ cap @ ''px'' @ post \<and> isPxNumber cap"
  then obtain pre cap post where t: "trim v = pre @ cap @ ''px'' @ post" and n: "isPxNumber cap"
    by blast
  have "v \<noteq> []" using t by (auto simp: trim_def)
  moreover have "pxExec (trim v) \<noteq> None" unfolding t by (rule pxExec_complete[OF n])
  ultimately show "parsePx (Some v) \<noteq> None" unfolding parsePx_def by simp
next
  assume "isPxNumber cap"
  then show "parsePx (Some (cap @ ''px'')) = Some (numberOf cap)" by (rule parsePx_exact)
next
  show "parsePx (Some ''16px'') = Some 16" by (simp add: parsePx_eval)
next
  show "parsePx (Some ''auto'') = None" by (simp add: parsePx_eval)
next
  show "parsePx (Some ''2em'') = None" by (simp add: parsePx_eval)
next
  show "parsePx None = None" by (simp add: parsePx_def)
qed

theorem parsePx_leftmost_occurrence_witness:
  "(\<exists>pre cap post. trim ''10px solid'' = pre @ cap @ ''px'' @ post \<and> isPxNumber cap \<and>
       (10::rat) = numberOf cap \<and> (\<forall>i<length pre. pxAt (drop i (trim ''10px solid'')) = None))
   \<and> parsePx (Some ''10px solid'') \<noteq> None
   \<and> isPxNumber ''-1.5'' \<and> parsePx (Some (''-1.5'' @ ''px'')) = Some (numberOf ''-1.5'')"
proof -
  have p: "parsePx (Some ''10px solid'') = Some 10" by (simp add: parsePx_eval)
  have n: "isPxNumber ''-1.5''" by (simp add: isPxNumber_def isDigit_def)
  note t = parsePx_leftmost_occurrence[of "''10px solid''" 10 "''-1.5''"]
  from t p have 1: "\<exists>pre cap post. trim ''10px solid'' = pre @ cap @ ''px'' @ post \<and>
       isPxNumber cap \<and> (10::rat) = numberOf cap \<and>
       (\<forall>i<length pre. pxAt (drop i (trim ''10px solid'')) = None)"
    by blast
  from t n have 2: "parsePx (Some (''-1.5'' @ ''px'')) = Some (numberOf ''-1.5'')" by blast
  from p have 3: "parsePx (Some ''10px solid'') \<noteq> None" by simp
  from 1 2 3 n show ?thesis by blast
qed

text \<open>
  The claim as the specification states it fails: \<^verbatim>\<open>10px solid\<close> is not a number
  followed by \<^verbatim>\<open>px\<close>, and the parser returns 10 for it.
\<close>

theorem parsePx_only_literals_counterexample:
  "parsePx (Some ''10px solid'') = Some 10 \<and> \<not> isPxLiteral (trim ''10px solid'')"
  by (simp add: parsePx_eval isPxLiteral_def isPxNumber_def)

section \<open>The round trip of six-digit hexadecimal colours\<close>

lemma hex_table:
  "list_all (\<lambda>c.
     isHexDigit (lowerChar c) \<and> \<not> isWs (lowerChar c) \<and>
     \<not> prefix ''-'' [lowerChar c] \<and> \<not> prefix ''+'' [lowerChar c] \<and>
     lowerChar c \<noteq> CHR ''x'' \<and> lowerChar c \<noteq> CHR ''X'' \<and>
     hexVal (lowerChar c) < 16 \<and> upperChar (hexChar (hexVal (lowerChar c))) = upperChar c \<and>
     \<not> isWs c \<and> upperChar c \<noteq> CHR ''#'') ''0123456789abcdefABCDEF''"
  by code_simp

lemma hex_lower:
  assumes "isHexDigit c"
  shows "isHexDigit (lowerChar c)" "\<not> isWs (lowerChar c)"
     "\<not> prefix ''-'' [lowerChar c]" "\<not> prefix ''+'' [lowerChar c]"
     "lowerChar c \<noteq> CHR ''x''" "lowerChar c \<noteq> CHR ''X''"
     "hexVal (lowerChar c) < 16" "upperChar (hexChar (hexVal (lowerChar c))) = upperChar c"
     "\<not> isWs c" "upperChar c \<noteq> CHR ''#''"
proof -
  from assms have "c \<in> set ''0123456789abcdefABCDEF''" unfolding isHexDigit_def .
  with hex_table[unfolded list_all_iff] have
    "isHexDigit (lowerChar c) \<and> \<not> isWs (lowerChar c) \<and>
     \<not> prefix ''-'' [lowerChar c] \<and> \<not> prefix ''+'' [lowerChar c] \<and>
     lowerChar c \<noteq> CHR ''x'' \<and> lowerChar c \<noteq> CHR ''X'' \<and>
     hexVal (lowerChar c) < 16 \<and> upperChar (hexChar (hexVal (lowerChar c))) = upperChar c \<and>
     \<not> isWs c \<and> upperChar c \<noteq> CHR ''#''" by (rule bspec)
  then show "isHexDigit (lowerChar c)" "\<not> isWs (lowerChar c)"
     "\<not> prefix ''-'' [lowerChar c]" "\<not> prefix ''+'' [lowerChar c]"
     "lowerChar c \<noteq> CHR ''x''" "lowerChar c \<noteq> CHR ''X''"
     "hexVal (lowerChar c) < 16" "upperChar (hexChar (hexVal (lowerChar c))) = upperChar c"
     "\<not> isWs c" "upperChar c \<noteq> CHR ''#''" by blast+
qed

lemma round_nat: "\<lfloor>rat_of_nat n / 255 * 255 + 1 / 2\<rfloor> = int n"
proof -
  have "rat_of_nat n / 255 * 255 = rat_of_nat n" by simp
  then show ?thesis by (simp add: floor_eq_iff)
qed

lemma parseInt16_pair:
  assumes "isHexDigit x" "isHexDigit y"
  shows "parseInt16 [lowerChar x, lowerChar y] = Num (of_nat (16 * hexVal (lowerChar x) + hexVal (lowerChar y)))"
proof -
  note hx = hex_lower[OF assms(1)] and hy = hex_lower[OF assms(2)]
  let ?s = "[lowerChar x, lowerChar y]"
  have 0: "dropWhile isWs ?s = ?s" using hx(2) by simp
  have 1: "prefix ''-'' ?s = False" "prefix ''+'' ?s = False"
    using hx(3,4) by (auto simp: prefix_def)
  have 2: "prefix ''0x'' ?s = False" "prefix ''0X'' ?s = False"
    using hy(5,6) by (auto simp: prefix_def)
  have 3: "takeWhile isHexDigit ?s = ?s"
    using hx(1) hy(1) by simp
  have 4: "foldl (\<lambda>a c. 16 * a + hexVal c) 0 ?s = 16 * hexVal (lowerChar x) + hexVal (lowerChar y)"
    by simp
  show ?thesis unfolding parseInt16_def Let_def
    by (simp only: 0 1 2 3 4 if_False simp_thms list.simps)
qed

lemma hexDigits_pair:
  assumes "p < 16" "q < 16"
  shows "padStart2 (hexDigits (16 * p + q)) = [hexChar p, hexChar q]"
proof (cases "p = 0")
  case True
  then show ?thesis using assms by (simp add: hexDigits.simps padStart2_def hexChar_def)
next
  case False
  then have "\<not> 16 * p + q < 16" by simp
  moreover have "(16 * p + q) div 16 = p" "(16 * p + q) mod 16 = q" using assms by auto
  ultimately show ?thesis using assms
    by (simp add: hexDigits.simps[of "16 * p + q"] hexDigits.simps[of p] padStart2_def)
qed

lemma component_roundtrip:
  assumes "isHexDigit x" "isHexDigit y"
  shows "map upperChar (padStart2 (toString16 (roundTimes255 (divNum (parseInt16 [lowerChar x, lowerChar y]) 255))))
         = [upperChar x, upperChar y]"
proof -
  let ?n = "16 * hexVal (lowerChar x) + hexVal (lowerChar y)"
  have "roundTimes255 (divNum (parseInt16 [lowerChar x, lowerChar y]) 255) = Num (of_nat ?n)"
    unfolding parseInt16_pair[OF assms] divNum_def roundTimes255_def
    by (simp only: jsnum.case round_nat of_int_of_nat_eq)
  moreover have "toString16 (Num (rat_of_nat ?n)) = hexDigits ?n"
  proof -
    have "\<lfloor>rat_of_nat ?n\<rfloor> = int ?n" by (rule floor_of_nat)
    then show ?thesis unfolding toString16_def by (simp del: of_nat_add of_nat_mult)
  qed
  ultimately show ?thesis
    using hex_lower[OF assms(1)] hex_lower[OF assms(2)]
    by (simp add: hexDigits_pair)
qed

lemma length6:
  assumes "length ds = 6"
  obtains d1 d2 d3 d4 d5 d6 where "ds = [d1, d2, d3, d4, d5, d6]"
proof -
  from assms obtain d1 t1 where 1: "ds = d1 # t1" "length t1 = 5" by (cases ds) auto
  then obtain d2 t2 where 2: "t1 = d2 # t2" "length t2 = 4" by (cases t1) auto
  then obtain d3 t3 where 3: "t2 = d3 # t3" "length t3 = 3" by (cases t2) auto
  then obtain d4 t4 where 4: "t3 = d4 # t4" "length t4 = 2" by (cases t3) auto
  then obtain d5 t5 where 5: "t4 = d5 # t5" "length t5 = 1" by (cases t4) auto
  then obtain d6 where 6: "t5 = [d6]" by (cases t5) auto
  show ?thesis using that 1 2 3 4 5 6 by simp
qed

text \<open>
  Claim C6. For every colour string made of \<^verbatim>\<open>#\<close> and six hexadecimal digits, in
  either letter case, \<open>parseColor\<close> returns a colour and \<open>hexOf\<close> of that colour is the
  string in upper case.
\<close>

theorem hex_roundtrip:
  assumes "length ds = 6" and "list_all isHexDigit ds"
  shows "\<exists>col. parseColor (Some (CHR ''#'' # ds)) = Some col \<and>
           hexOf col = toUpperCase (CHR ''#'' # ds)"
proof -
  from assms(1) obtain d1 d2 d3 d4 d5 d6 where ds: "ds = [d1, d2, d3, d4, d5, d6]"
    by (rule length6)
  from assms(2) have h: "isHexDigit d1" "isHexDigit d2" "isHexDigit d3"
      "isHexDigit d4" "isHexDigit d5" "isHexDigit d6"
    unfolding ds by simp_all
  let ?col = "RGB (divNum (parseInt16 [lowerChar d1, lowerChar d2]) 255)
                  (divNum (parseInt16 [lowerChar d3, lowerChar d4]) 255)
                  (divNum (parseInt16 [lowerChar d5, lowerChar d6]) 255)"
  have nw: "\<not> isWs CHR ''#''" by (simp add: isWs_def)
  have t: "trim (CHR ''#'' # ds) = CHR ''#'' # ds"
    by (rule trim_id) (use nw hex_lower(9)[OF h(6)] in \<open>simp_all add: ds\<close>)
  have lc: "lowerChar CHR ''#'' = CHR ''#''" by (simp add: lowerChar_def)
  have uc: "upperChar CHR ''#'' = CHR ''#''" by (simp add: upperChar_def)
  have p: "parseColor (Some (CHR ''#'' # ds)) = Some ?col"
    unfolding parseColor_def by (simp add: toLowerCase_def lc ds t[unfolded ds] Let_def)
  have "hexOf ?col = toUpperCase (CHR ''#'' # ds)"
    unfolding hexOf_def toUpperCase_def
    by (simp add: component_roundtrip h uc ds)
  with p show ?thesis by blast
qed

theorem hex_roundtrip_witness:
  "length ''1a2B3c'' = 6 \<and> list_all isHexDigit ''1a2B3c'' \<and>
   (\<exists>col. parseColor (Some ''#1a2B3c'') = Some col \<and> hexOf col = ''#1A2B3C'')"
proof -
  have 1: "length ''1a2B3c'' = 6" by simp
  have 2: "list_all isHexDigit ''1a2B3c''" by (simp add: isHexDigit_def)
  have 3: "toUpperCase ''#1a2B3c'' = ''#1A2B3C''" by (simp add: toUpperCase_def upperChar_def)
  from hex_roundtrip[OF 1 2] 1 2 show ?thesis unfolding 3 by blast
qed

section \<open>The track count of a repeated track list\<close>

text \<open>
  Claim C7 says that \<^verbatim>\<open>repeat(3, 1fr)\<close> counts three tracks. The code counts four: the
  pattern removes \<^verbatim>\<open>repeat(3,\<close> only, so the text \<^verbatim>\<open>1fr)\<close> that is left starts with a
  digit and is counted as one more track.
\<close>

theorem countGridTracks_repeat_counts_four:
  "countGridTracks (Some ''repeat(3, 1fr)'') = 4
   \<and> repeatStrip ''repeat(3, 1fr)'' = ''  1fr)''
   \<and> repeatCaptures ''repeat(3, 1fr)'' = [''3'']"
  by code_simp

section \<open>Box edges: the shorthand and the longhands\<close>

lemma getBox_expand:
  assumes "sget style base = Some one" "one \<noteq> []"
  shows "boxTokens one = [Some a] \<Longrightarrow> getBox style base = Box a a a a"
    and "boxTokens one = [Some a, Some b] \<Longrightarrow> getBox style base = Box a b a b"
    and "boxTokens one = [Some a, Some b, Some c] \<Longrightarrow> getBox style base = Box a b c b"
    and "boxTokens one = [Some a, Some b, Some c, Some d] \<Longrightarrow> getBox style base = Box a b c d"
  using assms by (simp_all add: getBox_def truthy_def orZero_def)

lemma getBox_absent:
  assumes "sget style base = None"
  shows "getBox style base =
           Box (orZero (parsePx (sget style (base @ ''-top''))))
               (orZero (parsePx (sget style (base @ ''-right''))))
               (orZero (parsePx (sget style (base @ ''-bottom''))))
               (orZero (parsePx (sget style (base @ ''-left''))))"
  using assms by (simp add: getBox_def truthy_def)

lemmas getBox_eval =
  getBox_def sget_def truthy_def boxTokens_def splitWs_def orZero_def parsePx_eval

text \<open>
  Claim C4, as the code has it. A shorthand of one, two, three or four length tokens
  expands by the CSS rules, and \<^verbatim>\<open>10px 20px\<close> gives top 10, right 20, bottom 10, left 20.
  When the shorthand expands, its values are the result for all four sides, whatever the
  longhand properties say: the code assigns the shorthand after the longhands. The
  longhand values (0 for one that is absent or has no length) are the result when the
  shorthand is absent.
\<close>

theorem getBox_shorthand_wins:
  "(sget style base = Some one \<and> one \<noteq> [] \<longrightarrow>
      (boxTokens one = [Some a] \<longrightarrow> getBox style base = Box a a a a)
    \<and> (boxTokens one = [Some a, Some b] \<longrightarrow> getBox style base = Box a b a b)
    \<and> (boxTokens one = [Some a, Some b, Some c] \<longrightarrow> getBox style base = Box a b c b)
    \<and> (boxTokens one = [Some a, Some b, Some c, Some d] \<longrightarrow> getBox style base = Box a b c d))
   \<and> (sget style base = None \<longrightarrow>
        getBox style base =
          Box (orZero (parsePx (sget style (base @ ''-top''))))
              (orZero (parsePx (sget style (base @ ''-right''))))
              (orZero (parsePx (sget style (base @ ''-bottom''))))
              (orZero (parsePx (sget style (base @ ''-left'')))))
   \<and> getBox [(''margin'', ''10px 20px'')] ''margin'' = Box 10 20 10 20"
proof (intro conjI impI)
  show "getBox [(''margin'', ''10px 20px'')] ''margin'' = Box 10 20 10 20"
    by (simp add: getBox_eval)
qed (auto simp: getBox_expand getBox_absent)

theorem getBox_shorthand_wins_witness:
  "getBox [(''padding'', ''1px 2px 3px''), (''padding-left'', ''9px'')] ''padding'' = Box 1 2 3 2
   \<and> getBox [(''padding-left'', ''9px'')] ''padding'' = Box 0 0 0 9"
proof -
  let ?st = "[(''padding'', ''1px 2px 3px''), (''padding-left'', ''9px'')]"
  have 1: "sget ?st ''padding'' = Some ''1px 2px 3px'' \<and> ''1px 2px 3px'' \<noteq> []"
    by (simp add: sget_def)
  have 2: "boxTokens ''1px 2px 3px'' = [Some 1, Some 2, Some 3]"
    by (simp add: boxTokens_def splitWs_def parsePx_eval)
  have 3: "sget [(''padding-left'', ''9px'')] ''padding'' = None"
    by (simp add: sget_def)
  have 4: "parsePx (sget [(''padding-left'', ''9px'')] (''padding'' @ ''-left'')) = Some 9"
    "parsePx (sget [(''padding-left'', ''9px'')] (''padding'' @ ''-top'')) = None"
    "parsePx (sget [(''padding-left'', ''9px'')] (''padding'' @ ''-right'')) = None"
    "parsePx (sget [(''padding-left'', ''9px'')] (''padding'' @ ''-bottom'')) = None"
    by (simp_all add: sget_def parsePx_eval)
  from getBox_shorthand_wins[of ?st "''padding''" "''1px 2px 3px''" 1 2 3 0] 1 2
  have a: "getBox ?st ''padding'' = Box 1 2 3 2" by blast
  from getBox_shorthand_wins[of "[(''padding-left'', ''9px'')]" "''padding''" "[]" 0 0 0 0] 3
  have "getBox [(''padding-left'', ''9px'')] ''padding'' =
          Box (orZero (parsePx (sget [(''padding-left'', ''9px'')] (''padding'' @ ''-top''))))
              (orZero (parsePx (sget [(''padding-left'', ''9px'')] (''padding'' @ ''-right''))))
              (orZero (parsePx (sget [(''padding-left'', ''9px'')] (''padding'' @ ''-bottom''))))
              (orZero (parsePx (sget [(''padding-left'', ''9px'')] (''padding'' @ ''-left''))))"
    by blast
  then have b: "getBox [(''padding-left'', ''9px'')] ''padding'' = Box 0 0 0 9"
    unfolding 4 by (simp add: orZero_def)
  from a b show ?thesis by blast
qed

text \<open>
  The claim as the specification states it fails: with the shorthand \<^verbatim>\<open>margin: 10px\<close>
  and the longhand \<^verbatim>\<open>margin-top: 5px\<close>, the longhand parses to 5 and the top edge is
  10, the value of the shorthand.
\<close>

theorem getBox_longhand_override_counterexample:
  "parsePx (sget [(''margin'', ''10px''), (''margin-top'', ''5px'')] ''margin-top'') = Some 5
   \<and> boxTop (getBox [(''margin'', ''10px''), (''margin-top'', ''5px'')] ''margin'') = 10"
  by (simp add: getBox_eval)

section \<open>The candidates of the font fallback\<close>

text \<open>
  Claim C3. For the font \<^verbatim>\<open>constructor\<close> Bold, a family that has no entry in the
  fallback table, the candidates are four and not two: between the requested font and
  Inter Regular there are the two candidates made from the member \<^verbatim>\<open>constructor\<close> that
  the table object inherits, at the requested style and at Regular. They are offered to
  the host in this order, and the first that the host loads is the result.
\<close>

theorem buildFontAttempts_inherited_key:
  "map_of FONT_FALLBACKS ''constructor'' = None
   \<and> buildFontAttempts (''constructor'', ''Bold'') =
       [Font (''constructor'', ''Bold''), Inherited ''constructor'' ''Bold'',
        Inherited ''constructor'' ''Regular'', Font (''Inter'', ''Regular'')]
   \<and> loadFontWithFallback tryLoadFont (''constructor'', ''Bold'') =
       (if tryLoadFont (Font (''constructor'', ''Bold''))
        then Some (Font (''constructor'', ''Bold''), False)
        else if tryLoadFont (Inherited ''constructor'' ''Bold'')
        then Some (Inherited ''constructor'' ''Bold'', True)
        else if tryLoadFont (Inherited ''constructor'' ''Regular'')
        then Some (Inherited ''constructor'' ''Regular'', True)
        else if tryLoadFont (Font (''Inter'', ''Regular''))
        then Some (Font (''Inter'', ''Regular''), True)
        else None)"
proof -
  have t: "map_of FONT_FALLBACKS ''constructor'' = None"
    by (simp add: FONT_FALLBACKS_def)
  have b: "buildFontAttempts (''constructor'', ''Bold'') =
       [Font (''constructor'', ''Bold''), Inherited ''constructor'' ''Bold'',
        Inherited ''constructor'' ''Regular'', Font (''Inter'', ''Regular'')]"
    by (simp add: buildFontAttempts_def t fontNameOf_def OBJECT_PROTOTYPE_KEYS_def)
  show ?thesis by (simp add: t b loadFontWithFallback_def)
qed

section \<open>The end-to-end example of a flex container\<close>

lemma nodes_updNode [simp]:
  "nodes (updNode i f s) = (nodes s)(i := f (nodes s i))"
  "count (updNode i f s) = count s"
  "page (updNode i f s) = page s"
  "gridMetaMap (updNode i f s) = gridMetaMap s"
  "pending (updNode i f s) = pending s"
  by (simp_all add: updNode_def)

lemma settle_idle: "pending s = [] \<Longrightarrow> settle h s = s"
  by (simp add: settle_def)





lemma appendChild_fresh:
  "parent (nodes s c) = None \<Longrightarrow>
   appendChild p c s =
     updNode p (\<lambda>n. n\<lparr>children := children n @ [c]\<rparr>) (updNode c (\<lambda>n. n\<lparr>parent := Some p\<rparr>) s)"
  by (simp add: appendChild_def)




lemma createRootFrame_eq:
  "createRootFrame h vw s =
     (count s,
      s\<lparr>count := Suc (count s),
        gridMetaMap := (gridMetaMap s)(count s := None),
        nodes := (nodes s)(count s :=
            (newFrame h)\<lparr>ntype := FRAME, parent := None, children := [],
              name := ''Imported HTML'', layoutMode := VERTICAL,
              primaryAxisSizingMode := AxisAUTO, counterAxisSizingMode := AxisFIXED,
              width := (if truthyNum vw then the vw else 1920), height := 100,
              paddingTop := 32, paddingRight := 40, paddingBottom := 32,
              paddingLeft := 40, itemSpacing := 32,
              fills := [SolidPaint (Num (957 / 1000)) (Num (969 / 1000)) (Num (996 / 1000)) (Num 1)],
              clipsContent := False\<rparr>),
        page := page s @ [count s]\<rparr>)"
  by (simp add: createRootFrame_def createFrame_def createNode_def updNode_def resize_def Let_def)

lemma tag_div:
  "toLowerCase ''div'' = ''div''" "toLowerCase ''span'' = ''span''"
  "''div'' \<notin> set HEADING_TAGS" "''div'' \<notin> set INLINE_TEXT_TAGS"
  "''div'' \<notin> set LIST_CONTAINER_TAGS" "''div'' \<noteq> ''img''" "''div'' \<notin> set BUTTON_TAGS"
  "''div'' \<noteq> ''svg''" "''div'' \<notin> set SVG_TAGS"
  "''span'' \<notin> set HEADING_TAGS" "''span'' \<in> set INLINE_TEXT_TAGS"
  by (simp_all add: toLowerCase_def lowerChar_def HEADING_TAGS_def INLINE_TEXT_TAGS_def
      LIST_CONTAINER_TAGS_def BUTTON_TAGS_def SVG_TAGS_def)







section \<open>Content clipping of the margin wrapper\<close>

lemma margin_facts:
  "toLowerCase (orDefault (sget marginStyle ''display'') []) = []"
  "getBox marginStyle ''padding'' = Box 0 0 0 0"
  "getBox marginStyle ''margin'' = Box 10 10 10 10"
  "parsePx (sget marginStyle ''gap'') = None"
  "parsePx (sget marginStyle ''column-gap'') = None"
  "parsePx (sget marginStyle ''row-gap'') = None"
  "parsePx (sget marginStyle ''width'') = None"
  "parsePx (sget marginStyle ''height'') = None"
  "parsePx (sget marginStyle ''min-height'') = None"
  "sget marginStyle ''background-image'' = None"
  "sget marginStyle ''background-color'' = None"
  "sget marginStyle ''justify-content'' = None"
  "sget marginStyle ''align-items'' = None"
  by (simp_all add: marginStyle_def getBox_eval orDefault_def toLowerCase_def lowerChar_def)

lemma configure_margin:
  "configureLayoutForFrame i marginStyle al s =
     updNode i (\<lambda>n. n\<lparr>layoutMode := VERTICAL,
                     primaryAxisSizingMode := AxisAUTO,
                     counterAxisSizingMode := AxisAUTO,
                     paddingTop := 0, paddingRight := 0,
                     paddingBottom := 0, paddingLeft := 0,
                     itemSpacing := 6,
                     primaryAxisAlignItems := AlignMIN,
                     counterAxisAlignItems := AlignMIN\<rparr>) s"
  unfolding configureLayoutForFrame_def margin_facts Let_def
  by (simp add: orSix_def orElse_def mapPrimaryAlign_def mapCounterAlign_def orDefault_def truthy_def toLowerCase_def)

lemma background_margin:
  "applyBackgroundPaint h i marginStyle s = updNode i (\<lambda>n. n\<lparr>fills := []\<rparr>) s"
  unfolding applyBackgroundPaint_def scheduleBackgroundFill_def margin_facts
  by (simp add: parseGradientPaint_def extractImageReference_def truthy_def solidFills_def parseColorWithAlpha_def)

lemma sizing_margin: "applyExplicitSizing i marginStyle s = s"
  unfolding applyExplicitSizing_def margin_facts Let_def by simp

lemma genericFrame_margin:
  assumes "gridMetaMap s p = None" "layoutMode (nodes s p) \<noteq> NONE" "p < count s"
  shows "\<exists>s'. genericFrame cx ''div'' [] marginStyle p s = (count s, s')
     \<and> count s' = count s + 2 \<and> pending s' = pending s \<and> page s' = page s
     \<and> children (nodes s' p) = children (nodes s p) @ [count s + 1]
     \<and> children (nodes s' (count s + 1)) = [count s]
     \<and> ntype (nodes s' (count s + 1)) = FRAME
     \<and> name (nodes s' (count s + 1)) = ''margin''
     \<and> clipsContent (nodes s' (count s + 1)) = clipsContent (newFrame (hostOf cx))
     \<and> ntype (nodes s' (count s)) = FRAME
     \<and> name (nodes s' (count s)) = ''div''
     \<and> clipsContent (nodes s' (count s)) = False
     \<and> parent (nodes s' (count s)) = Some (count s + 1)
     \<and> children (nodes s' (count s)) = []
     \<and> clipsContent (nodes s' p) = clipsContent (nodes s p)"
proof -
  have ne: "p \<noteq> count s" "p \<noteq> Suc (count s)" using assms(3) by simp_all
  show ?thesis
    using assms(1,2) ne
    unfolding genericFrame_def applyFrameBoxStyle_def configure_margin background_margin sizing_margin
      appendWithMargin_def margin_facts createFrame_def createNode_def
    by (simp add: Let_def isGridFrame_def hasMargin_def appendChild_fresh orElse_def
        sget_def truthy_def updNode_def resize_def)
qed

text \<open>
  Claim C10. For the input \<^verbatim>\<open><div style="margin:10px"></div>\<close>, on every host, from
  every page, with every alias map and option, the import creates three frames: the root
  frame and the frame of the \<^verbatim>\<open>div\<close>, both with content clipping switched off, and
  between them the frame named \<^verbatim>\<open>margin\<close> that \<^verbatim>\<open>appendWithMargin\<close> wraps around the
  \<^verbatim>\<open>div\<close>. The content clipping of this wrapper is the one the host gives to a new
  frame: the code never assigns it. On the documented host, as in the design tool, a new
  frame clips its content, so the wrapper does.
\<close>

theorem margin_wrapper_keeps_host_clipping:
  "(\<exists>s. importScene \<lparr>hostOf = h, optAutoLayout = al, aliases = am\<rparr> vw marginExample s0 = Inr s
      \<and> count s = count s0 + 3
      \<and> children (nodes s (count s0)) = [count s0 + 2]
      \<and> clipsContent (nodes s (count s0)) = False
      \<and> ntype (nodes s (count s0 + 1)) = FRAME
      \<and> name (nodes s (count s0 + 1)) = ''div''
      \<and> clipsContent (nodes s (count s0 + 1)) = False
      \<and> ntype (nodes s (count s0 + 2)) = FRAME
      \<and> name (nodes s (count s0 + 2)) = ''margin''
      \<and> children (nodes s (count s0 + 2)) = [count s0 + 1]
      \<and> clipsContent (nodes s (count s0 + 2)) = clipsContent (newFrame h))
   \<and> clipsContent (newFrame documentedHost) = True"
proof
  let ?cx = "\<lparr>hostOf = h, optAutoLayout = al, aliases = am\<rparr>"
  define sr where "sr = snd (createRootFrame h vw s0)"
  define s1 where "s1 = sr\<lparr>pending := []\<rparr>"
  have r: "createRootFrame h vw s0 = (count s0, sr)"
    by (simp add: sr_def createRootFrame_eq)
  have s1: "count s1 = count s0 + 1" "gridMetaMap s1 (count s0) = None"
    "layoutMode (nodes s1 (count s0)) \<noteq> NONE" "children (nodes s1 (count s0)) = []"
    "clipsContent (nodes s1 (count s0)) = False" "pending s1 = []"
    by (simp_all add: s1_def sr_def createRootFrame_eq)
  have lt: "count s0 < count s1" using s1(1) by simp
  from genericFrame_margin[OF s1(2) s1(3) lt, of ?cx]
  obtain s' where g: "genericFrame ?cx ''div'' [] marginStyle (count s0) s1 = (count s1, s')"
    and p: "count s' = count s1 + 2" "pending s' = pending s1"
      "children (nodes s' (count s0)) = children (nodes s1 (count s0)) @ [count s1 + 1]"
      "children (nodes s' (count s1 + 1)) = [count s1]"
      "ntype (nodes s' (count s1 + 1)) = FRAME"
      "name (nodes s' (count s1 + 1)) = ''margin''"
      "clipsContent (nodes s' (count s1 + 1)) = clipsContent (newFrame (hostOf ?cx))"
      "ntype (nodes s' (count s1)) = FRAME"
      "name (nodes s' (count s1)) = ''div''"
      "clipsContent (nodes s' (count s1)) = False"
      "clipsContent (nodes s' (count s0)) = clipsContent (nodes s1 (count s0))"
    by blast
  have i: "importScene ?cx vw marginExample s0 = Inr (s'\<lparr>pending := []\<rparr>)"
    unfolding importScene_def buildScene_def marginExample_def
    by (simp add: r tag_div s1_def[symmetric] g waitForPending_def p(2) s1(6) settle_idle)
  show "\<exists>s. importScene ?cx vw marginExample s0 = Inr s
      \<and> count s = count s0 + 3
      \<and> children (nodes s (count s0)) = [count s0 + 2]
      \<and> clipsContent (nodes s (count s0)) = False
      \<and> ntype (nodes s (count s0 + 1)) = FRAME
      \<and> name (nodes s (count s0 + 1)) = ''div''
      \<and> clipsContent (nodes s (count s0 + 1)) = False
      \<and> ntype (nodes s (count s0 + 2)) = FRAME
      \<and> name (nodes s (count s0 + 2)) = ''margin''
      \<and> children (nodes s (count s0 + 2)) = [count s0 + 1]
      \<and> clipsContent (nodes s (count s0 + 2)) = clipsContent (newFrame h)"
    using i p s1 by (intro exI[of _ "s'\<lparr>pending := []\<rparr>"]) (simp add: ac_simps)
  show "clipsContent (newFrame documentedHost) = True"
    by (simp add: documentedHost_def documentedFrame_def)
qed

section \<open>Background images are filled in when their fetch has come back\<close>

















section \<open>The pass that creates the shared styles\<close>

lemma firstsBy_append:
  "firstsBy k S (xs @ ys) = firstsBy k S xs @ firstsBy k (S \<union> k ` set xs) ys"
  by (induction xs arbitrary: S) (simp_all add: insert_absorb)

lemma firstsBy_keys:
  "k ` set (firstsBy k S xs) = k ` set xs - S"
  by (induction xs arbitrary: S) auto

lemma firstsBy_distinct: "distinct (map k (firstsBy k S xs))"
proof (induction xs arbitrary: S)
  case (Cons x xs)
  have "k x \<notin> k ` set (firstsBy k (insert (k x) S) xs)" unfolding firstsBy_keys by simp
  with Cons show ?case by simp
qed simp

lemma firstsBy_length: "length (firstsBy k {} xs) = card (k ` set xs)"
proof -
  have "length (firstsBy k {} xs) = length (map k (firstsBy k {} xs))" by simp
  also have "\<dots> = card (set (map k (firstsBy k {} xs)))"
    using firstsBy_distinct[of k "{}" xs] by (simp only: distinct_card)
  also have "\<dots> = card (k ` set xs)" using firstsBy_keys[of k "{}" xs] by simp
  finally show ?thesis .
qed

lemma map_of_Some_key: "map_of xs k = Some v \<Longrightarrow> k \<in> fst ` set xs"
  by (metis map_of_eq_None_iff option.distinct(1))

lemma styleSize_effect:
  "styleSize h n st = (n', st') \<Longrightarrow>
     textStyles st' = textStyles st @
        map TextStyle (firstsBy (\<lambda>x. x) (fst ` set (sizeSet st)) (case fontSize n of Some sz \<Rightarrow> [sz] | None \<Rightarrow> []))
   \<and> fst ` set (sizeSet st') = fst ` set (sizeSet st) \<union> set (case fontSize n of Some sz \<Rightarrow> [sz] | None \<Rightarrow> [])
   \<and> paintStyles st' = paintStyles st \<and> colorSet st' = colorSet st
   \<and> kind n' = kind n \<and> fontName n' = fontName n \<and> fontSize n' = fontSize n
   \<and> nodeFills n' = nodeFills n"
  by (auto simp: styleSize_def Let_def map_of_eq_None_iff split: option.splits if_splits)

lemma styleColor_effect:
  "styleColor h n st = (n', st') \<Longrightarrow>
     paintStyles st' = paintStyles st @
        map paintStyleOf (firstsBy hexOf (fst ` set (colorSet st))
          (case find isSolid (case nodeFills n of Some fs \<Rightarrow> fs | None \<Rightarrow> []) of
              Some p \<Rightarrow> [colorOf p] | None \<Rightarrow> []))
   \<and> fst ` set (colorSet st') = fst ` set (colorSet st) \<union> hexOf ` set
          (case find isSolid (case nodeFills n of Some fs \<Rightarrow> fs | None \<Rightarrow> []) of
              Some p \<Rightarrow> [colorOf p] | None \<Rightarrow> [])
   \<and> textStyles st' = textStyles st \<and> sizeSet st' = sizeSet st
   \<and> kind n' = kind n \<and> fontName n' = fontName n \<and> fontSize n' = fontSize n
   \<and> nodeFills n' = nodeFills n"
  by (auto simp: styleColor_def Let_def map_of_eq_None_iff paintStyleOf_def
      dest: map_of_Some_key split: option.splits if_splits prod.splits)

lemma styleStep_effect:
  assumes "styleStep h n st = (n', st')"
  shows "textStyles st' = textStyles st @
            map TextStyle (firstsBy (\<lambda>x. x) (fst ` set (sizeSet st)) (sizeOf h n))
    \<and> fst ` set (sizeSet st') = fst ` set (sizeSet st) \<union> set (sizeOf h n)
    \<and> paintStyles st' = paintStyles st @
            map paintStyleOf (firstsBy hexOf (fst ` set (colorSet st)) (solidOf h n))
    \<and> fst ` set (colorSet st') = fst ` set (colorSet st) \<union> hexOf ` set (solidOf h n)
    \<and> sizeOf h n' = sizeOf h n \<and> solidOf h n' = solidOf h n"
proof (cases "styled h n")
  case False
  then have "styleStep h n st = (n, st)"
    by (auto simp: styleStep_def styled_def split: option.splits)
  with assms False show ?thesis by (simp add: sizeOf_def solidOf_def)
next
  case True
  obtain n1 st1 where 1: "styleSize h n st = (n1, st1)" by (cases "styleSize h n st")
  from True have 2: "styleColor h n1 st1 = (n', st')"
    using assms by (auto simp: styleStep_def styled_def 1 split: option.splits)
  note a = styleSize_effect[OF 1] and b = styleColor_effect[OF 2]
  have s1: "styled h n1" "styled h n'" using True a b by (simp_all add: styled_def)
  show ?thesis using True s1 a b by (simp add: sizeOf_def solidOf_def)
qed

lemma stylesLoop_effect:
  "stylesLoop h ns st = (ns', st') \<Longrightarrow>
     textStyles st' = textStyles st @
        map TextStyle (firstsBy (\<lambda>x. x) (fst ` set (sizeSet st)) (fontSizes h ns))
   \<and> paintStyles st' = paintStyles st @
        map paintStyleOf (firstsBy hexOf (fst ` set (colorSet st)) (solidColors h ns))
   \<and> fontSizes h ns' = fontSizes h ns \<and> solidColors h ns' = solidColors h ns"
proof (induction ns arbitrary: st ns' st')
  case Nil
  then show ?case by (simp add: fontSizes_def solidColors_def)
next
  case (Cons n ns)
  obtain n1 st1 where 1: "styleStep h n st = (n1, st1)" by (cases "styleStep h n st")
  obtain ns2 st2 where 2: "stylesLoop h ns st1 = (ns2, st2)" by (cases "stylesLoop h ns st1")
  from Cons.prems 1 2 have e: "ns' = n1 # ns2" "st' = st2" by simp_all
  note a = styleStep_effect[OF 1] and b = Cons.IH[OF 2]
  have f: "fontSizes h (n # ns) = sizeOf h n @ fontSizes h ns"
    "solidColors h (n # ns) = solidOf h n @ solidColors h ns"
    "fontSizes h (n1 # ns2) = sizeOf h n1 @ fontSizes h ns2"
    "solidColors h (n1 # ns2) = solidOf h n1 @ solidColors h ns2"
    by (simp_all add: fontSizes_def solidColors_def)
  show ?case unfolding e f firstsBy_append using a b by simp
qed

lemma pass_effect:
  "localTextStyles (createLocalStylesFromDocument h d) =
     localTextStyles d @ map TextStyle (firstsBy (\<lambda>x. x) {} (fontSizes h (findAll d)))"
  "localPaintStyles (createLocalStylesFromDocument h d) =
     localPaintStyles d @ map paintStyleOf (firstsBy hexOf {} (solidColors h (findAll d)))"
  "fontSizes h (findAll (createLocalStylesFromDocument h d)) = fontSizes h (findAll d)"
  "solidColors h (findAll (createLocalStylesFromDocument h d)) = solidColors h (findAll d)"
proof -
  let ?st = "\<lparr>sizeSet = [], colorSet = [], textStyles = localTextStyles d,
              paintStyles = localPaintStyles d\<rparr>"
  obtain ns st where l: "stylesLoop h (findAll d) ?st = (ns, st)"
    by (cases "stylesLoop h (findAll d) ?st")
  note e = stylesLoop_effect[OF l]
  show "localTextStyles (createLocalStylesFromDocument h d) =
     localTextStyles d @ map TextStyle (firstsBy (\<lambda>x. x) {} (fontSizes h (findAll d)))"
    "localPaintStyles (createLocalStylesFromDocument h d) =
     localPaintStyles d @ map paintStyleOf (firstsBy hexOf {} (solidColors h (findAll d)))"
    "fontSizes h (findAll (createLocalStylesFromDocument h d)) = fontSizes h (findAll d)"
    "solidColors h (findAll (createLocalStylesFromDocument h d)) = solidColors h (findAll d)"
    using e by (simp_all add: createLocalStylesFromDocument_def l)
qed

lemma pass_iterated:
  "fontSizes h (findAll ((createLocalStylesFromDocument h ^^ k) d)) = fontSizes h (findAll d)"
  "solidColors h (findAll ((createLocalStylesFromDocument h ^^ k) d)) = solidColors h (findAll d)"
  by (induction k) (simp_all add: pass_effect)

text \<open>
  Claim C5. One run of \<^verbatim>\<open>createLocalStylesFromDocument\<close> adds to the text styles of the
  document one style for each distinct font size, and to its paint styles one style for
  each distinct hex key of the first solid fill, of the text nodes it does not skip, in
  the order of their first occurrence on the page; the styles that the document already
  has are not looked up. The sizes and colours of the nodes are unchanged by a run, so
  \<open>k\<close> runs add \<open>k\<close> text styles for each distinct size and \<open>k\<close> paint styles for each
  distinct key: a second run creates every style again.
\<close>

theorem styles_created_on_every_run:
  "localTextStyles (createLocalStylesFromDocument h d) =
     localTextStyles d @ map TextStyle (firstsBy (\<lambda>x. x) {} (fontSizes h (findAll d)))
   \<and> localPaintStyles (createLocalStylesFromDocument h d) =
     localPaintStyles d @ map paintStyleOf (firstsBy hexOf {} (solidColors h (findAll d)))
   \<and> length (localTextStyles ((createLocalStylesFromDocument h ^^ k) d)) =
       length (localTextStyles d) + k * card (set (fontSizes h (findAll d)))
   \<and> length (localPaintStyles ((createLocalStylesFromDocument h ^^ k) d)) =
       length (localPaintStyles d) + k * card (hexOf ` set (solidColors h (findAll d)))"
proof (intro conjI)
  show "length (localTextStyles ((createLocalStylesFromDocument h ^^ k) d)) =
       length (localTextStyles d) + k * card (set (fontSizes h (findAll d)))"
  proof (induction k)
    case (Suc k)
    have "card (set (fontSizes h (findAll d))) = length (firstsBy (\<lambda>x. x) {} (fontSizes h (findAll d)))"
      by (simp add: firstsBy_length)
    with Suc show ?case by (simp add: pass_effect pass_iterated)
  qed simp
  show "length (localPaintStyles ((createLocalStylesFromDocument h ^^ k) d)) =
       length (localPaintStyles d) + k * card (hexOf ` set (solidColors h (findAll d)))"
  proof (induction k)
    case (Suc k)
    show ?case using Suc by (simp add: pass_effect pass_iterated firstsBy_length)
  qed simp
qed (simp_all add: pass_effect)

text \<open>
  The claim as the specification states it fails: on a page with one text node of size
  16 and a black fill, the first run creates one text style and one paint style, and the
  second run creates both again, so that there are two text styles for the one size and
  two paint styles for the one colour.
\<close>

theorem style_pass_second_run_counterexample:
  "fontSizes permissiveStyleHost (findAll oneTextDocument) = [16]
   \<and> localTextStyles (createLocalStylesFromDocument permissiveStyleHost oneTextDocument)
       = [TextStyle 16]
   \<and> localTextStyles (createLocalStylesFromDocument permissiveStyleHost
          (createLocalStylesFromDocument permissiveStyleHost oneTextDocument))
       = [TextStyle 16, TextStyle 16]
   \<and> localPaintStyles (createLocalStylesFromDocument permissiveStyleHost oneTextDocument)
       = [PaintStyle ''Color/#000000'' [SolidPaint (Num 0) (Num 0) (Num 0) (Num 1)]]
   \<and> localPaintStyles (createLocalStylesFromDocument permissiveStyleHost
          (createLocalStylesFromDocument permissiveStyleHost oneTextDocument))
       = [PaintStyle ''Color/#000000'' [SolidPaint (Num 0) (Num 0) (Num 0) (Num 1)],
          PaintStyle ''Color/#000000'' [SolidPaint (Num 0) (Num 0) (Num 0) (Num 1)]]"
  by code_simp

end
